theory Spec2Isabelle
  imports Main "HOL-Library.AList"
begin

section \<open>JavaScript values and objects\<close>

text \<open>
  The TypeScript sources read optional properties, test them for truthiness and spread
  objects into one another. A JavaScript value is a value of \<open>jsval\<close>; an object is an
  association list from property names to values (keys distinct, in insertion order).
  Reading a property that is not there gives \<open>undefined\<close>.
\<close>

datatype jsval = JUndefined | JNull | JBool bool | JStr string | JNum int

type_synonym obj = "(string \<times> jsval) list"

definition get_prop :: "obj \<Rightarrow> string \<Rightarrow> jsval" where
  "get_prop ob k = (case map_of ob k of None \<Rightarrow> JUndefined | Some v \<Rightarrow> v)"

fun truthy :: "jsval \<Rightarrow> bool" where
  "truthy JUndefined = False"
| "truthy JNull = False"
| "truthy (JBool b) = b"
| "truthy (JStr s) = (s \<noteq> [])"
| "truthy (JNum n) = (n \<noteq> 0)"

text \<open>\<open>a || b\<close> and \<open>a ?? b\<close> on values.\<close>

definition js_or :: "jsval \<Rightarrow> jsval \<Rightarrow> jsval" where
  "js_or a b = (if truthy a then a else b)"

definition nullish :: "jsval \<Rightarrow> bool" where
  "nullish v = (v = JUndefined \<or> v = JNull)"

text \<open>\<open>typeof v === 'undefined'\<close> and \<open>typeof v === 'string'\<close>.\<close>

definition typeof_undefined :: "jsval \<Rightarrow> bool" where
  "typeof_undefined v = (v = JUndefined)"

fun typeof_string :: "jsval \<Rightarrow> bool" where
  "typeof_string (JStr s) = True"
| "typeof_string v = False"

text \<open>Truthiness of an optional string (\<open>undefined\<close> and \<open>''\<close> are falsy).\<close>

fun truthy_str :: "string option \<Rightarrow> bool" where
  "truthy_str None = False"
| "truthy_str (Some s) = (s \<noteq> [])"

text \<open>
  The object spread \<open>{...a, ...b}\<close>: the properties of \<open>a\<close> in their order; each property of
  \<open>b\<close>, in its order, replaces the value of its key where the key is there already and is
  added at the end otherwise.
\<close>

definition spread :: "obj \<Rightarrow> obj \<Rightarrow> obj" where
  "spread a b = fold (\<lambda>(k, v). AList.update k v) b a"

section \<open>Errors\<close>

text \<open>
  Every \<open>throw\<close> and every rejected promise of the sources is a value \<open>Inl e\<close> of a sum.
  \<open>NonErrorValue\<close> stands for a rejection whose reason is not an instance of \<open>Error\<close>
  (a promise may reject with any value).
\<close>

datatype missing_data_error_type = MissingCheckout | MissingPaymentMethod

record additional_action_data =
  token :: "string option"
  redirect_url :: "string option"

record additional_action_required =
  aar_data :: "additional_action_data option"

record request_error_body =
  errors :: "string list"
  additional_action :: "additional_action_required option"

datatype error =
    NotInitializedError
  | InvalidArgumentError
  | MissingDataError missing_data_error_type
  | PaymentMethodFailedError "string option"
  | OrderFinalizationNotRequiredError
  | UnableToContinueAsGuestError
  | PaymentMethodClientUnavailableError
  | RequestError request_error_body
  | TypeError
  | GenericError string
  | NonErrorValue string

text \<open>\<open>error instanceof Error\<close>: every error class above extends \<open>Error\<close>.\<close>

fun instanceof_Error :: "error \<Rightarrow> bool" where
  "instanceof_Error (NonErrorValue v) = False"
| "instanceof_Error e = True"

section \<open>LanguageService.translate\<close>

text \<open>
  The service keeps its flattened translation table, the locale of each key, a cache of
  compiled formatters and a flag choosing the formatting library. The logger is the list
  of the warnings it has received.
\<close>

datatype formatter = IntlMessageFormat string jsval | CompiledMessage string jsval

record language_service =
  ls_locale :: string
  ls_locales :: obj
  ls_translations :: obj
  ls_formatters :: "(string \<times> formatter) list"
  ls_isCspNonceExperimentEnabled :: bool
  ls_warnings :: "string list"

text \<open>
  What \<open>translate\<close> may throw: an error of the formatting library that carries an
  \<open>originalMessage\<close> property (possibly undefined), or any other value.
\<close>

datatype format_thrown = FormatError "string option" | OtherThrown string

text \<open>
  The two formatting libraries (\<open>intl-messageformat\<close>, \<open>messageformat\<close>) and the regular
  expression rewriting of \<open>_escapeSpecialCharacters\<close> are outside the repository; they are
  parameters. A constructor or compiler may throw; formatting may throw.
\<close>

record format_lib =
  escapeSpecialCharacters :: "string \<Rightarrow> string"
  newIntlMessageFormat :: "string \<Rightarrow> jsval \<Rightarrow> format_thrown option"
  intlFormat :: "string \<Rightarrow> jsval \<Rightarrow> obj \<Rightarrow> format_thrown + string"
  messageFormatCompile :: "jsval \<Rightarrow> string \<Rightarrow> format_thrown option"
  compiledCall :: "string \<Rightarrow> jsval \<Rightarrow> obj \<Rightarrow> format_thrown + string"

definition KEY_PREFIX :: string where
  "KEY_PREFIX = ''optimized_checkout''"

definition transformData :: "obj \<Rightarrow> obj" where
  "transformData d = map (\<lambda>(k, v). (k, if v = JNull \<or> v = JUndefined then JStr [] else v)) d"

definition isFormatError :: "format_thrown \<Rightarrow> bool" where
  "isFormatError e = (case e of FormatError m \<Rightarrow> True | OtherThrown v \<Rightarrow> False)"

text \<open>\<open>error.originalMessage ?? ''\<close> on a format error.\<close>

definition originalMessage_or_empty :: "format_thrown \<Rightarrow> string" where
  "originalMessage_or_empty e = (case e of FormatError (Some m) \<Rightarrow> m | _ \<Rightarrow> [])"

text \<open>Applying a cached formatter to the transformed data.\<close>

definition run_formatter :: "format_lib \<Rightarrow> formatter \<Rightarrow> obj \<Rightarrow> format_thrown + string" where
  "run_formatter lib f d =
     (case f of
        IntlMessageFormat m l \<Rightarrow> intlFormat lib m l d
      | CompiledMessage m l \<Rightarrow> compiledCall lib m l d)"

definition missing_key_warning :: "string \<Rightarrow> string" where
  "missing_key_warning prefixedKey =
     ''Translation key '' @ [CHR 0x22] @ prefixedKey @ [CHR 0x22] @ '' is missing''"

definition translate ::
  "format_lib \<Rightarrow> string \<Rightarrow> obj \<Rightarrow> language_service \<Rightarrow> (format_thrown + string) \<times> language_service"
where
  "translate lib key d s =
     (let prefixedKey = KEY_PREFIX @ ''.'' @ key in
      case get_prop (ls_translations s) prefixedKey of
        JStr message \<Rightarrow>
          (if ls_isCspNonceExperimentEnabled s then
             (case (case map_of (ls_formatters s) prefixedKey of
                      Some f \<Rightarrow> Inr (f, s)
                    | None \<Rightarrow>
                        (let m = escapeSpecialCharacters lib message;
                             l = get_prop (ls_locales s) prefixedKey
                         in case newIntlMessageFormat lib m l of
                              Some e \<Rightarrow> Inl e
                            | None \<Rightarrow>
                                Inr (IntlMessageFormat m l,
                                     s\<lparr>ls_formatters :=
                                          AList.update prefixedKey (IntlMessageFormat m l)
                                            (ls_formatters s)\<rparr>))) of
                Inl e \<Rightarrow> (Inl e, s)
              | Inr (f, s') \<Rightarrow>
                  (case run_formatter lib f (transformData d) of
                     Inr text \<Rightarrow> (Inr text, s')
                   | Inl e \<Rightarrow>
                       (if isFormatError e then (Inr (originalMessage_or_empty e), s')
                        else (Inl e, s'))))
           else
             (case (case map_of (ls_formatters s) prefixedKey of
                      Some f \<Rightarrow> Inr (f, s)
                    | None \<Rightarrow>
                        (let l = get_prop (ls_locales s) prefixedKey
                         in case messageFormatCompile lib l message of
                              Some e \<Rightarrow> Inl e
                            | None \<Rightarrow>
                                Inr (CompiledMessage message l,
                                     s\<lparr>ls_formatters :=
                                          AList.update prefixedKey (CompiledMessage message l)
                                            (ls_formatters s)\<rparr>))) of
                Inl e \<Rightarrow> (Inl e, s)
              | Inr (f, s') \<Rightarrow> (run_formatter lib f (transformData d), s')))
      | v \<Rightarrow>
          (Inr prefixedKey,
           s\<lparr>ls_warnings := ls_warnings s @ [missing_key_warning prefixedKey]\<rparr>))"

section \<open>StripeUPEScriptLoader.getStripeClient\<close>

text \<open>
  The host window carries the cached client (\<open>bcStripeClient\<close>), the \<open>Stripe\<close> constructor
  once the script has run, and the console. The client type \<open>'c\<close> is whatever the
  constructor returns. \<open>loadScript\<close> of the script loader is a parameter: it returns the
  window as the script left it, and the rejection if there is one.
\<close>

record stripe_constructor_options =
  stripeAccount :: string
  sco_locale :: "string option"
  betas :: "string list"
  apiVersion :: string

record 'c stripe_host_window =
  bcStripeClient :: "'c option"
  Stripe :: "(string \<Rightarrow> stripe_constructor_options \<Rightarrow> 'c) option"
  console :: "(string \<times> string \<times> string option) list"

type_synonym 'c script_loader =
  "string \<Rightarrow> 'c stripe_host_window \<Rightarrow> error option \<times> 'c stripe_host_window"

definition load ::
  "'c script_loader \<Rightarrow> 'c stripe_host_window \<Rightarrow>
     (error + (string \<Rightarrow> stripe_constructor_options \<Rightarrow> 'c)) \<times> 'c stripe_host_window"
where
  "load loadScript w =
     (case loadScript ''https://js.stripe.com/v3/'' w of
        (Some e, w') \<Rightarrow> (Inl e, w')
      | (None, w') \<Rightarrow>
          (case Stripe w' of
             None \<Rightarrow> (Inl PaymentMethodClientUnavailableError, w')
           | Some stripe \<Rightarrow> (Inr stripe, w')))"

definition getStripeClient ::
  "'c script_loader \<Rightarrow> string \<Rightarrow> string \<Rightarrow> string option \<Rightarrow> 'c stripe_host_window \<Rightarrow>
     (error + 'c) \<times> 'c stripe_host_window"
where
  "getStripeClient loadScript stripePublishableKey stripeAccount' locale' w =
     (case bcStripeClient w of
        Some stripeClient \<Rightarrow> (Inr stripeClient, w)
      | None \<Rightarrow>
          (case load loadScript w of
             (Inl e, w1) \<Rightarrow> (Inl e, w1)
           | (Inr stripe, w1) \<Rightarrow>
               (let w2 = w1\<lparr>console := console w1 @ [(stripePublishableKey, stripeAccount', locale')]\<rparr>;
                    stripeClient =
                      stripe ''pk_test_iyRKkVUt0YWpJ3Lq7mfsw3VW008KiFDH4s''
                        \<lparr>stripeAccount = stripeAccount',
                         sco_locale = locale',
                         betas = [''payment_element_beta_2'', ''alipay_pm_beta_1'',
                                  ''link_default_integration_beta_1'',
                                  ''shipping_address_element_beta_1'',
                                  ''address_element_beta_1''],
                         apiVersion = ''2020-03-02;alipay_beta=v1;link_beta=v1''\<rparr>
                in (Inr stripeClient, w2\<lparr>bcStripeClient := Some stripeClient\<rparr>))))"

section \<open>Observables of actions\<close>

text \<open>
  An action creator returns an observable built with \<open>of\<close>, \<open>empty\<close>, \<open>defer\<close>, \<open>concat\<close>,
  \<open>merge\<close> and \<open>catchError\<close>. What a subscriber of such an observable sees is a finite
  sequence of effects: actions emitted, requests sent, and at most one failure, after
  which nothing more is delivered. The effects are split in two: \<open>now\<close> holds what happens
  synchronously while subscribing, \<open>later\<close> what happens when the pending promises settle.
  Where two sources are merged, the order in which their later effects arrive is decided
  by the event loop; it is the schedule, a list of booleans (\<open>True\<close>: the left source
  delivers next).
\<close>

record checkout =
  checkout_id :: string

record subscriptions =
  sub_email :: jsval
  acceptsMarketingNewsletter :: jsval
  acceptsAbandonedCartEmails :: jsval

datatype request =
    CreateAddress string obj "obj option"
  | UpdateAddress string obj "obj option"
  | UpdateSubscriptions subscriptions "obj option"

datatype action =
    ContinueAsGuestRequested
  | ContinueAsGuestSucceeded checkout
  | ContinueAsGuestFailed error
  | UpdateBillingAddressRequested
  | UpdateBillingAddressSucceeded checkout
  | UpdateBillingAddressFailed error
  | UpdateSubscriptionsRequested
  | UpdateSubscriptionsSucceeded
  | UpdateSubscriptionsFailed error

datatype effect = Emit action | Fail "error + action" | Send request

record observable =
  now :: "effect list"
  later :: "effect list"

fun is_Fail :: "effect \<Rightarrow> bool" where
  "is_Fail (Fail x) = True"
| "is_Fail e = False"

definition has_fail :: "effect list \<Rightarrow> bool" where
  "has_fail es = list_ex is_Fail es"

text \<open>The effects up to and including the first failure.\<close>

fun until_fail :: "effect list \<Rightarrow> effect list" where
  "until_fail [] = []"
| "until_fail (e # es) = (if is_Fail e then [e] else e # until_fail es)"

text \<open>The effects before the first failure, and what it carries.\<close>

fun first_fail :: "effect list \<Rightarrow> (effect list \<times> (error + action)) option" where
  "first_fail [] = None"
| "first_fail (Fail x # es) = Some ([], x)"
| "first_fail (e # es) = (case first_fail es of None \<Rightarrow> None | Some (pre, x) \<Rightarrow> Some (e # pre, x))"

definition rx_of :: "action \<Rightarrow> observable" where
  "rx_of a = \<lparr>now = [Emit a], later = []\<rparr>"

definition rx_empty :: observable where
  "rx_empty = \<lparr>now = [], later = []\<rparr>"

definition rx_throwError :: "error + action \<Rightarrow> observable" where
  "rx_throwError x = \<lparr>now = [Fail x], later = []\<rparr>"

text \<open>
  A promise is the effects of creating it (the request sent) and the value it settles
  with. \<open>defer\<close> of an async function creates the promise on subscription and emits its
  value, or fails with its rejection, later.
\<close>

type_synonym 'a promise = "effect list \<times> (error + 'a)"

definition rx_defer :: "action promise \<Rightarrow> observable" where
  "rx_defer p =
     \<lparr>now = fst p, later = [case snd p of Inr a \<Rightarrow> Emit a | Inl e \<Rightarrow> Fail (Inl e)]\<rparr>"

definition rx_concat :: "observable \<Rightarrow> observable \<Rightarrow> observable" where
  "rx_concat a b =
     (if has_fail (now a) then \<lparr>now = until_fail (now a), later = []\<rparr>
      else if later a = [] then
        (if has_fail (now b) then \<lparr>now = now a @ until_fail (now b), later = []\<rparr>
         else \<lparr>now = now a @ now b, later = until_fail (later b)\<rparr>)
      else if has_fail (later a) then \<lparr>now = now a, later = until_fail (later a)\<rparr>
      else \<lparr>now = now a, later = until_fail (later a @ now b @ later b)\<rparr>)"

definition rx_catchError :: "(error + action \<Rightarrow> observable) \<Rightarrow> observable \<Rightarrow> observable" where
  "rx_catchError h a =
     (case first_fail (now a) of
        Some (pre, x) \<Rightarrow> \<lparr>now = pre @ now (h x), later = later (h x)\<rparr>
      | None \<Rightarrow>
          (case first_fail (later a) of
             Some (pre, x) \<Rightarrow> \<lparr>now = now a, later = pre @ now (h x) @ later (h x)\<rparr>
           | None \<Rightarrow> a))"

fun interleave :: "bool list \<Rightarrow> 'a list \<Rightarrow> 'a list \<Rightarrow> 'a list" where
  "interleave sched [] ys = ys"
| "interleave sched (x # xs) [] = x # xs"
| "interleave [] (x # xs) (y # ys) = (x # xs) @ (y # ys)"
| "interleave (True # sched) (x # xs) (y # ys) = x # interleave sched xs (y # ys)"
| "interleave (False # sched) (x # xs) (y # ys) = y # interleave sched (x # xs) ys"

text \<open>
  \<open>merge\<close> subscribes to both sources at once, the left one first; a failure of either
  ends the merged observable.
\<close>

definition rx_merge :: "bool list \<Rightarrow> observable \<Rightarrow> observable \<Rightarrow> observable" where
  "rx_merge sched a b =
     (if has_fail (now a @ now b) then \<lparr>now = until_fail (now a @ now b), later = []\<rparr>
      else \<lparr>now = now a @ now b, later = until_fail (interleave sched (later a) (later b))\<rparr>)"

section \<open>BillingAddressActionCreator\<close>

text \<open>
  The selectors of the store state that the action creator reads. The feature table of
  the store configuration is an object; the billing address and the guest credentials are
  objects, since the code spreads them into the request body.
\<close>

record customer =
  isGuest :: bool

record store_config =
  features :: obj

record internal_checkout_selectors =
  getCheckout :: "checkout option"
  getConfig :: "store_config option"
  getCustomer :: "customer option"
  getBillingAddress :: "obj option"

text \<open>
  The collaborators of the action creator: the response of the backend to a request of
  the request sender, and the observable that the subscriptions action creator returns.
\<close>

record action_creator_env =
  respond :: "request \<Rightarrow> error + checkout"
  updateSubscriptions :: "subscriptions \<Rightarrow> obj option \<Rightarrow> observable"

definition requestSender_createAddress ::
  "action_creator_env \<Rightarrow> string \<Rightarrow> obj \<Rightarrow> obj option \<Rightarrow> checkout promise" where
  "requestSender_createAddress env checkoutId address opts =
     ([Send (CreateAddress checkoutId address opts)], respond env (CreateAddress checkoutId address opts))"

definition requestSender_updateAddress ::
  "action_creator_env \<Rightarrow> string \<Rightarrow> obj \<Rightarrow> obj option \<Rightarrow> checkout promise" where
  "requestSender_updateAddress env checkoutId address opts =
     ([Send (UpdateAddress checkoutId address opts)], respond env (UpdateAddress checkoutId address opts))"

text \<open>
  \<open>state.config.getConfig()?.storeConfig.checkoutSettings.features[...] ?? true\<close>
\<close>

definition isBillingFixExperimentEnabled :: "internal_checkout_selectors \<Rightarrow> jsval" where
  "isBillingFixExperimentEnabled state =
     (let v = (case getConfig state of
                 None \<Rightarrow> JUndefined
               | Some c \<Rightarrow> get_prop (features c) ''CHECKOUT-8392.fix_billing_creation_in_checkout'')
      in if nullish v then JBool True else v)"

text \<open>lodash \<open>isEmpty\<close> on the stored billing address: no object, or no own property.\<close>

definition isEmpty :: "obj option \<Rightarrow> bool" where
  "isEmpty ob = (case ob of None \<Rightarrow> True | Some ps \<Rightarrow> ps = [])"

text \<open>
  Modelled from the spec: \<open>throwErrorAction\<close> of \<open>common/error\<close> is not among the sources.
  The spec: request-layer errors are wrapped into a \<open>Failed\<close> action carrying the error.
\<close>

definition throwErrorAction :: "(error \<Rightarrow> action) \<Rightarrow> error + action \<Rightarrow> observable" where
  "throwErrorAction failed x =
     (case x of Inl e \<Rightarrow> rx_throwError (Inr (failed e)) | Inr a \<Rightarrow> rx_throwError (Inr a))"

definition createOrUpdateBillingAddress ::
  "action_creator_env \<Rightarrow> string \<Rightarrow> obj \<Rightarrow> jsval \<Rightarrow> bool \<Rightarrow> obj option \<Rightarrow> checkout promise"
where
  "createOrUpdateBillingAddress env checkoutId address isBillingFixEnabled hasBillingAddress opts =
     (if truthy isBillingFixEnabled then
        (if \<not> hasBillingAddress then requestSender_createAddress env checkoutId address opts
         else requestSender_updateAddress env checkoutId address opts)
      else if \<not> truthy (get_prop address ''id'') then
        requestSender_createAddress env checkoutId address opts
      else requestSender_updateAddress env checkoutId address opts)"

definition updateCustomerConsent ::
  "action_creator_env \<Rightarrow> obj \<Rightarrow> obj option \<Rightarrow> observable" where
  "updateCustomerConsent env credentials opts =
     (let email = get_prop credentials ''email'';
          abandoned = get_prop credentials ''acceptsAbandonedCartEmails'';
          newsletter = get_prop credentials ''acceptsMarketingNewsletter''
      in if nullish abandoned \<and> nullish newsletter then rx_empty
         else updateSubscriptions env
                \<lparr>sub_email = email,
                 acceptsMarketingNewsletter = js_or newsletter (JBool False),
                 acceptsAbandonedCartEmails = js_or abandoned (JBool False)\<rparr>
                opts)"

text \<open>
  \<open>continueAsGuest\<close> returns a thunk; running it on the store state either throws
  (\<open>Inl\<close>) before any observable exists, or returns the merged observable.
\<close>

definition continueAsGuest ::
  "action_creator_env \<Rightarrow> obj \<Rightarrow> obj option \<Rightarrow> bool list \<Rightarrow> internal_checkout_selectors \<Rightarrow>
     error + observable"
where
  "continueAsGuest env credentials opts sched state =
     (case getCheckout state of
        None \<Rightarrow> Inl (MissingDataError MissingCheckout)
      | Some checkout \<Rightarrow>
          (if (case getCustomer state of None \<Rightarrow> False | Some customer \<Rightarrow> \<not> isGuest customer)
           then Inl UnableToContinueAsGuestError
           else
             (let billingAddress = getBillingAddress state;
                  billingAddressRequestBody =
                    (case billingAddress of
                       None \<Rightarrow> credentials
                     | Some ba \<Rightarrow> spread (AList.delete ''country'' ba) credentials);
                  hasBillingAddress = (\<not> isEmpty billingAddress)
              in Inr (rx_merge sched
                        (rx_catchError (throwErrorAction ContinueAsGuestFailed)
                           (rx_concat (rx_of ContinueAsGuestRequested)
                              (rx_defer
                                 (map_prod id (map_sum id ContinueAsGuestSucceeded)
                                    (createOrUpdateBillingAddress env (checkout_id checkout)
                                       billingAddressRequestBody
                                       (isBillingFixExperimentEnabled state)
                                       hasBillingAddress opts)))))
                        (updateCustomerConsent env credentials opts)))))"

text \<open>
  The request body of \<open>updateAddress\<close>: the caller's address with its \<open>email\<close> set (to the
  stored email when the caller's is undefined and a billing address is stored), and with
  the \<open>id\<close> of the stored billing address when that is truthy.
\<close>

definition updateAddress_body :: "obj \<Rightarrow> obj option \<Rightarrow> obj" where
  "updateAddress_body address billingAddress =
     (let email = (case billingAddress of
                     Some ba \<Rightarrow>
                       (if typeof_undefined (get_prop address ''email'') then get_prop ba ''email''
                        else get_prop address ''email'')
                   | None \<Rightarrow> get_prop address ''email'');
          body = AList.update ''email'' email address
      in case billingAddress of
           Some ba \<Rightarrow>
             (if truthy (get_prop ba ''id'') then AList.update ''id'' (get_prop ba ''id'') body
              else body)
         | None \<Rightarrow> body)"

text \<open>
  \<open>updateAddress\<close> builds its observable with \<open>Observable.create\<close>: a throw inside the
  subscriber is delivered as the failure of the observable.
\<close>

definition updateAddress ::
  "action_creator_env \<Rightarrow> obj \<Rightarrow> obj option \<Rightarrow> internal_checkout_selectors \<Rightarrow> observable"
where
  "updateAddress env address opts state =
     (case getCheckout state of
        None \<Rightarrow> rx_throwError (Inl (MissingDataError MissingCheckout))
      | Some checkout \<Rightarrow>
          (let billingAddress = getBillingAddress state;
               hasBillingAddress = (\<not> isEmpty billingAddress);
               billingAddressRequestBody = updateAddress_body address billingAddress;
               p = createOrUpdateBillingAddress env (checkout_id checkout)
                     billingAddressRequestBody (isBillingFixExperimentEnabled state)
                     hasBillingAddress opts
           in \<lparr>now = Emit UpdateBillingAddressRequested # fst p,
               later = [case snd p of
                          Inr body \<Rightarrow> Emit (UpdateBillingAddressSucceeded body)
                        | Inl response \<Rightarrow> Fail (Inr (UpdateBillingAddressFailed response))]\<rparr>))"

section \<open>StripeCSPaymentStrategy\<close>

subsection \<open>Data\<close>

text \<open>
  Handles of the vendor SDK (client, checkout instance, elements) are opaque numbers.
  A payment method of the integration state has an optional client token and optional
  initialization data; an address has an optional email and postal code.
\<close>

type_synonym stripe_client = nat
type_synonym stripe_checkout_instance = nat
type_synonym stripe_element = nat

record stripe_initialization_data =
  stripePublishableKey :: string
  enableLink :: bool

record payment_method =
  clientToken :: "string option"
  initializationData :: "stripe_initialization_data option"

record address =
  addr_email :: "string option"
  postalCode :: "string option"

record cart =
  cart_id :: string

record checkout_data =
  isStoreCreditApplied :: bool

record formatted_payload =
  fp_cart_id :: string
  fp_confirm :: bool
  fp_method :: "string option"
  fp_credit_card_token :: "string option"

record payment =
  pay_methodId :: string
  formattedPayload :: formatted_payload



datatype stripe_checkout_session_payment_status = Paid | UnPaid | NoPaymentRequired

text \<open>
  A checkout session as the vendor returns it. \<open>session_status\<close> is \<open>status.paymentStatus\<close>
  (\<open>None\<close>: the session has no \<open>status\<close> object); \<open>session_total\<close> is
  \<open>total.total.amount.toString()\<close> (\<open>None\<close>: the session has no \<open>total\<close> object).
\<close>

record stripe_checkout_session =
  session_id :: "string option"
  session_status :: "stripe_checkout_session_payment_status option"
  session_total :: "string option"

record stripe_error =
  message :: "string option"

record confirm_result =
  cr_session :: "stripe_checkout_session option"
  cr_error :: "stripe_error option"

record stripe_actions =
  hasGetSession :: bool

record load_actions_result =
  la_actions :: "stripe_actions option"
  la_error :: "stripe_error option"

datatype stripe_string_constant = NEVER | AUTO | IF_REQUIRED

record stripe_elements_create_options =
  field_postalCode :: stripe_string_constant
  wallet_link :: stripe_string_constant
  el_layout :: "obj option"

datatype stripe_element_event = LOADER_START | READY | CHANGE

text \<open>
  The options of \<open>initialize\<close>. A callback of the caller is present or not; calling it is
  an event of the trace.
\<close>

record stripe_ocs_options =
  containerId :: string
  appearance :: "obj option"
  fonts :: "obj option"
  layout :: "obj option"
  has_onError :: bool
  has_paymentMethodSelect :: bool
  has_handleClosePaymentMethod :: bool
  has_togglePreloader :: bool

record payment_initialize_options =
  stripeocs :: "stripe_ocs_options option"
  init_methodId :: string
  init_gatewayId :: "string option"

subsection \<open>The collaborators\<close>

text \<open>
  The strategy talks to the payment integration service, the script loader, the Stripe
  integration service, the vendor's checkout instance and its elements, and the callbacks
  of the caller. Each call with an effect is an event of the trace, recorded with its
  arguments and with what it returned or rejected with.
\<close>

datatype event =
    EvApplyStoreCredit bool "error option"
  | EvLoadPaymentMethod string string "error option"
  | EvSubmitOrder obj "obj option" "error option"
  | EvSubmitPayment payment "error option"
  | EvGetStripeClient "stripe_initialization_data option" string "error + stripe_client"
  | EvGetStripeCheckout stripe_client string "error + stripe_checkout_instance"
  | EvLoadActions stripe_checkout_instance "error + load_actions_result"
  | EvUpdateEmail string "error option"
  | EvConfirm "string option" "error + confirm_result"
  | EvGetSession "error + stripe_checkout_session option"
  | EvCreatePaymentElement stripe_checkout_instance stripe_elements_create_options
      "stripe_element option"
  | EvMountElement stripe_element string
  | EvOn stripe_element stripe_element_event
  | EvHandleClosePaymentMethod
  | EvUnmount stripe_element
  | EvDestroy stripe_element
  | EvCollapse stripe_element
  | EvSetTotalText string
  | EvCreateCurrencySelectorElement stripe_checkout_instance "stripe_element option"
  | EvMountCurrencySelector stripe_element
  | EvOnError error
  | EvPaymentMethodSelect string

text \<open>
  The collaborators are deterministic in the history of the calls: what a call returns
  is a function of the trace so far and of its arguments. The selectors of the
  integration state read the trace at the moment \<open>getState()\<close> was called. The type guards
  \<open>isStripePaymentMethodLike\<close> and \<open>isAdditionalActionError\<close> of the Stripe utilities are
  parameters too. Synchronous vendor calls that return nothing (\<open>mount\<close>, \<open>unmount\<close>,
  \<open>destroy\<close>, \<open>collapse\<close>, \<open>on\<close>) do not throw, nor do the callbacks of the caller other
  than \<open>onError\<close>. The \<open>onError\<close> callback is called in the \<open>catch\<close> block of \<open>initialize\<close>,
  outside every \<open>try\<close>: what it throws, if it throws, is the last parameter. Console
  output of the strategy is not recorded.
\<close>

record strategy_env =
  getCheckoutOrThrow :: "event list \<Rightarrow> error + checkout_data"
  getPaymentMethodOrThrow :: "event list \<Rightarrow> string \<Rightarrow> string option \<Rightarrow> error + payment_method"
  getCart :: "event list \<Rightarrow> cart option"
  pis_getBillingAddress :: "event list \<Rightarrow> address option"
  getShippingAddress :: "event list \<Rightarrow> address option"
  getCartLocale :: "event list \<Rightarrow> string"
  applyStoreCredit :: "event list \<Rightarrow> bool \<Rightarrow> error option"
  loadPaymentMethod :: "event list \<Rightarrow> string \<Rightarrow> string \<Rightarrow> error option"
  submitOrder :: "event list \<Rightarrow> obj \<Rightarrow> obj option \<Rightarrow> error option"
  submitPayment :: "event list \<Rightarrow> payment \<Rightarrow> error option"
  scriptLoader_getStripeClient ::
    "event list \<Rightarrow> stripe_initialization_data option \<Rightarrow> string \<Rightarrow> error + stripe_client"
  getStripeCheckout :: "event list \<Rightarrow> stripe_client \<Rightarrow> string \<Rightarrow> error + stripe_checkout_instance"
  loadActions :: "event list \<Rightarrow> stripe_checkout_instance \<Rightarrow> error + load_actions_result"
  updateEmail :: "event list \<Rightarrow> string \<Rightarrow> error option"
  confirm :: "event list \<Rightarrow> string option \<Rightarrow> error + confirm_result"
  getSession :: "event list \<Rightarrow> error + stripe_checkout_session option"
  getPaymentElement :: "event list \<Rightarrow> stripe_checkout_instance \<Rightarrow> stripe_element option"
  createPaymentElement ::
    "event list \<Rightarrow> stripe_checkout_instance \<Rightarrow> stripe_elements_create_options \<Rightarrow>
       stripe_element option"
  getCurrencySelectorElement :: "event list \<Rightarrow> stripe_checkout_instance \<Rightarrow> stripe_element option"
  createCurrencySelectorElement ::
    "event list \<Rightarrow> stripe_checkout_instance \<Rightarrow> stripe_element option"
  getElementById :: "event list \<Rightarrow> string \<Rightarrow> bool"
  isAdditionalActionError :: "string list \<Rightarrow> bool"
  isStripePaymentMethodLike :: "payment_method \<Rightarrow> bool"
  onError :: "event list \<Rightarrow> error \<Rightarrow> error option"

subsection \<open>The strategy instance\<close>

record strategy =
  stripeClient :: "stripe_client option"
  stripeCheckout :: "stripe_checkout_instance option"
  selectedMethodId :: "string option"
  trace :: "event list"

type_synonym 'a async = "strategy \<Rightarrow> (error + 'a) \<times> strategy"

definition emit :: "event \<Rightarrow> strategy \<Rightarrow> strategy" where
  "emit ev s = s\<lparr>trace := trace s @ [ev]\<rparr>"

text \<open>\<open>await m\<close> and go on with \<open>f\<close>; a rejection of \<open>m\<close> is the rejection of the whole.\<close>

definition await :: "'a async \<Rightarrow> ('a \<Rightarrow> 'b async) \<Rightarrow> 'b async" where
  "await m f s = (case m s of (Inl e, s') \<Rightarrow> (Inl e, s') | (Inr a, s') \<Rightarrow> f a s')"

text \<open>A call that resolves with nothing or rejects, recorded by \<open>mk\<close>.\<close>

definition call_unit :: "(error option \<Rightarrow> event) \<Rightarrow> (event list \<Rightarrow> error option) \<Rightarrow> unit async" where
  "call_unit mk f s =
     (let r = f (trace s)
      in (case r of None \<Rightarrow> Inr () | Some e \<Rightarrow> Inl e, emit (mk r) s))"

text \<open>A call that resolves with a value or rejects, recorded by \<open>mk\<close>.\<close>

definition call_val :: "(error + 'a \<Rightarrow> event) \<Rightarrow> (event list \<Rightarrow> error + 'a) \<Rightarrow> 'a async" where
  "call_val mk f s = (let r = f (trace s) in (r, emit (mk r) s))"

subsection \<open>Private helpers\<close>

definition getStripeActionsOrThrow :: "strategy_env \<Rightarrow> stripe_actions async" where
  "getStripeActionsOrThrow env s =
     (case stripeCheckout s of
        None \<Rightarrow> (Inl NotInitializedError, s)
      | Some co \<Rightarrow>
          await (call_val (EvLoadActions co) (\<lambda>h. loadActions env h co))
            (\<lambda>res s1.
               case la_actions res of
                 None \<Rightarrow>
                   (Inl (PaymentMethodFailedError
                           (case la_error res of None \<Rightarrow> None | Some err \<Rightarrow> message err)), s1)
               | Some actions \<Rightarrow>
                   (case la_error res of
                      Some err \<Rightarrow> (Inl (PaymentMethodFailedError (message err)), s1)
                    | None \<Rightarrow> (Inr actions, s1))) s)"

definition loadStripeJs ::
  "strategy_env \<Rightarrow> stripe_initialization_data option \<Rightarrow> stripe_client async" where
  "loadStripeJs env initData s =
     (case stripeClient s of
        Some c \<Rightarrow> (Inr c, s)
      | None \<Rightarrow>
          call_val (EvGetStripeClient initData (getCartLocale env (trace s)))
            (\<lambda>h. scriptLoader_getStripeClient env h initData (getCartLocale env (trace s))) s)"

text \<open>\<open>getPaymentElement() || createPaymentElement(options)\<close> on the checkout instance.\<close>

definition getStripeElement ::
  "strategy_env \<Rightarrow> stripe_elements_create_options \<Rightarrow> strategy \<Rightarrow> stripe_element option \<times> strategy"
where
  "getStripeElement env options s =
     (case stripeCheckout s of
        None \<Rightarrow> (None, s)
      | Some co \<Rightarrow>
          (case getPaymentElement env (trace s) co of
             Some el \<Rightarrow> (Some el, s)
           | None \<Rightarrow>
               (let r = createPaymentElement env (trace s) co options
                in (r, emit (EvCreatePaymentElement co options r) s))))"

definition getCurrencySelectorElement' ::
  "strategy_env \<Rightarrow> strategy \<Rightarrow> stripe_element option \<times> strategy" where
  "getCurrencySelectorElement' env s =
     (case stripeCheckout s of
        None \<Rightarrow> (None, s)
      | Some co \<Rightarrow>
          (case getCurrencySelectorElement env (trace s) co of
             Some el \<Rightarrow> (Some el, s)
           | None \<Rightarrow>
               (let r = createCurrencySelectorElement env (trace s) co
                in (r, emit (EvCreateCurrencySelectorElement co r) s))))"

text \<open>
  The listener of the element's change event calls \<open>_onStripeElementChange\<close>; the event
  is a payment event or not, collapsed or not, and carries the selected type.
\<close>

record stripe_event =
  isStripePaymentEvent :: bool
  collapsed :: bool
  value_type :: string

definition onStripeElementChange ::
  "stripe_event \<Rightarrow> string \<Rightarrow> string \<Rightarrow> bool \<Rightarrow> strategy \<Rightarrow> strategy" where
  "onStripeElementChange ev gatewayId methodId paymentMethodSelect s =
     (if \<not> isStripePaymentEvent ev \<or> collapsed ev then s
      else
        (let s1 = s\<lparr>selectedMethodId := Some (value_type ev)\<rparr>
         in if paymentMethodSelect
            then emit (EvPaymentMethodSelect (gatewayId @ ''-'' @ methodId)) s1
            else s1))"

definition collapseStripeElement :: "strategy_env \<Rightarrow> strategy \<Rightarrow> strategy" where
  "collapseStripeElement env s =
     (case stripeCheckout s of
        None \<Rightarrow> s
      | Some co \<Rightarrow>
          (case getPaymentElement env (trace s) co of
             None \<Rightarrow> s
           | Some el \<Rightarrow> emit (EvCollapse el) s))"






subsection \<open>initialize\<close>

text \<open>
  \<open>_initializeStripeElement\<close>, in three steps: the payment method and its client token
  (reloaded when the token is missing); the client, the addresses of the state and the
  checkout instance; the payment element with its listeners.
\<close>

definition initializeStripeElement_paymentMethod ::
  "strategy_env \<Rightarrow> string \<Rightarrow> string \<Rightarrow> (string \<times> stripe_initialization_data option) async" where
  "initializeStripeElement_paymentMethod env gatewayId methodId s =
     (case getPaymentMethodOrThrow env (trace s) methodId (Some gatewayId) of
        Inl e \<Rightarrow> (Inl e, s)
      | Inr pm0 \<Rightarrow>
          await
            (\<lambda>s0. if truthy_str (clientToken pm0) then (Inr pm0, s0)
                  else
                    await (call_unit (EvLoadPaymentMethod gatewayId methodId)
                             (\<lambda>h. loadPaymentMethod env h gatewayId methodId))
                      (\<lambda>u s1. (getPaymentMethodOrThrow env (trace s1) methodId (Some gatewayId), s1))
                      s0)
            (\<lambda>paymentMethod s1.
               if \<not> isStripePaymentMethodLike env paymentMethod
               then (Inl (MissingDataError MissingPaymentMethod), s1)
               else
                 (case clientToken paymentMethod of
                    None \<Rightarrow> (Inl (MissingDataError MissingPaymentMethod), s1)
                  | Some tok \<Rightarrow>
                      (if tok = [] then (Inl (MissingDataError MissingPaymentMethod), s1)
                       else (Inr (tok, initializationData paymentMethod), s1)))) s)"

definition initializeStripeElement_checkout ::
  "strategy_env \<Rightarrow> string \<Rightarrow> stripe_initialization_data option \<Rightarrow>
     (stripe_initialization_data \<times> address option \<times> string option) async" where
  "initializeStripeElement_checkout env tok initData =
     await (loadStripeJs env initData)
       (\<lambda>client s1.
          let s2 = s1\<lparr>stripeClient := Some client\<rparr>
          in case initData of
               None \<Rightarrow> (Inl TypeError, s2)
             | Some d \<Rightarrow>
                 (let billingAddress = pis_getBillingAddress env (trace s2);
                      postal = (case getShippingAddress env (trace s2) of
                                  Some sa \<Rightarrow> postalCode sa
                                | None \<Rightarrow>
                                    (case billingAddress of
                                       Some ba \<Rightarrow> postalCode ba
                                     | None \<Rightarrow> None))
                  in await (call_val (EvGetStripeCheckout client tok)
                              (\<lambda>h. getStripeCheckout env h client tok))
                       (\<lambda>co s3. (Inr (d, billingAddress, postal), s3\<lparr>stripeCheckout := Some co\<rparr>))
                       s2))"

definition initializeStripeElement_mount ::
  "strategy_env \<Rightarrow> stripe_ocs_options \<Rightarrow> stripe_initialization_data \<Rightarrow> address option \<Rightarrow>
     string option \<Rightarrow> unit async" where
  "initializeStripeElement_mount env stripe initData billingAddress postal =
     await (getStripeActionsOrThrow env)
       (\<lambda>stripeActions.
          await (call_unit
                   (EvUpdateEmail
                      (case billingAddress of
                         None \<Rightarrow> []
                       | Some ba \<Rightarrow> (case addr_email ba of None \<Rightarrow> [] | Some m \<Rightarrow> m)))
                   (\<lambda>h. updateEmail env h
                      (case billingAddress of
                         None \<Rightarrow> []
                       | Some ba \<Rightarrow> (case addr_email ba of None \<Rightarrow> [] | Some m \<Rightarrow> m))))
            (\<lambda>u s2.
               case getStripeElement env
                      \<lparr>field_postalCode = (if truthy_str postal then NEVER else AUTO),
                       wallet_link = (if enableLink initData then AUTO else NEVER),
                       el_layout = layout stripe\<rparr> s2 of
                 (None, s3) \<Rightarrow> (Inl NotInitializedError, s3)
               | (Some stripeElement, s3) \<Rightarrow>
                   (let s4 = emit (EvMountElement stripeElement (containerId stripe)) s3;
                        s5 = emit (EvOn stripeElement LOADER_START) s4;
                        s6 = emit (EvOn stripeElement READY) s5;
                        s7 = emit (EvOn stripeElement CHANGE) s6
                    in (Inr (),
                        if has_handleClosePaymentMethod stripe
                        then emit EvHandleClosePaymentMethod s7 else s7))))"

definition initializeStripeElement ::
  "strategy_env \<Rightarrow> stripe_ocs_options \<Rightarrow> string \<Rightarrow> string \<Rightarrow> unit async" where
  "initializeStripeElement env stripe gatewayId methodId =
     await (initializeStripeElement_paymentMethod env gatewayId methodId)
       (\<lambda>(tok, initData).
          await (initializeStripeElement_checkout env tok initData)
            (\<lambda>(d, billingAddress, postal).
               initializeStripeElement_mount env stripe d billingAddress postal))"

text \<open>
  \<open>_initAdaptivePricing\<close>: everything after the check of the checkout instance is inside
  a \<open>try\<close> whose \<open>catch\<close> only logs. \<open>initAdaptivePricing_try\<close> is that block: it stops at
  the first throw and keeps the events it has made.
\<close>

definition initAdaptivePricing_try :: "strategy_env \<Rightarrow> unit async" where
  "initAdaptivePricing_try env =
     await (getStripeActionsOrThrow env)
       (\<lambda>stripeActions.
          await (\<lambda>s. if hasGetSession stripeActions
                     then call_val EvGetSession (getSession env) s
                     else (Inr None, s))
            (\<lambda>stripeCheckoutSession.
               await (\<lambda>s. if getElementById env (trace s) ''stripe-total'' then
                            (case stripeCheckoutSession of
                               None \<Rightarrow> (Inr (), emit (EvSetTotalText []) s)
                             | Some session \<Rightarrow>
                                 (case session_total session of
                                    None \<Rightarrow> (Inl TypeError, s)
                                  | Some t \<Rightarrow> (Inr (), emit (EvSetTotalText t) s)))
                          else (Inr (), s))
                 (\<lambda>u s.
                    case getCurrencySelectorElement' env s of
                      (None, s1) \<Rightarrow> (Inr (), s1)
                    | (Some el, s1) \<Rightarrow> (Inr (), emit (EvMountCurrencySelector el) s1))))"

definition initAdaptivePricing :: "strategy_env \<Rightarrow> unit async" where
  "initAdaptivePricing env s =
     (case stripeCheckout s of
        None \<Rightarrow> (Inl NotInitializedError, s)
      | Some co \<Rightarrow> (Inr (), snd (initAdaptivePricing_try env s)))"

text \<open>The body of the \<open>try\<close> block of \<open>initialize\<close>.\<close>

definition initialize_try ::
  "strategy_env \<Rightarrow> stripe_ocs_options \<Rightarrow> string \<Rightarrow> string \<Rightarrow> unit async" where
  "initialize_try env stripe gatewayId methodId =
     await (initializeStripeElement env stripe gatewayId methodId)
       (\<lambda>u. initAdaptivePricing env)"

definition initialize :: "strategy_env \<Rightarrow> payment_initialize_options \<Rightarrow> unit async" where
  "initialize env options s =
     (case stripeocs options of
        None \<Rightarrow> (Inl NotInitializedError, s)
      | Some stripe \<Rightarrow>
          (if containerId stripe = [] \<or> \<not> truthy_str (init_gatewayId options)
           then (Inl NotInitializedError, s)
           else
             (case initialize_try env stripe (the (init_gatewayId options)) (init_methodId options) s of
                (Inr u, s1) \<Rightarrow> (Inr (), s1)
              | (Inl e, s1) \<Rightarrow>
                  (if instanceof_Error e \<and> has_onError stripe
                   then (case onError env (trace s1) e of None \<Rightarrow> Inr () | Some e' \<Rightarrow> Inl e',
                         emit (EvOnError e) s1)
                   else (Inr (), s1)))))"

subsection \<open>execute, finalize, deinitialize\<close>



definition finalize :: "unit async" where
  "finalize s = (Inl OrderFinalizationNotRequiredError, s)"

definition deinitialize :: "strategy_env \<Rightarrow> unit async" where
  "deinitialize env s =
     (let paymentElement =
            (case stripeCheckout s of
               None \<Rightarrow> None
             | Some co \<Rightarrow> getPaymentElement env (trace s) co);
          s1 = (case paymentElement of
                  None \<Rightarrow> s
                | Some el \<Rightarrow> emit (EvDestroy el) (emit (EvUnmount el) s))
      in (Inr (), s1\<lparr>stripeCheckout := None, stripeClient := None, selectedMethodId := None\<rparr>))"

text \<open>A new strategy instance: nothing cached, nothing called.\<close>

definition new_strategy :: strategy where
  "new_strategy = \<lparr>stripeClient = None, stripeCheckout = None, selectedMethodId = None, trace = []\<rparr>"

section \<open>Observations\<close>

text \<open>What the claims speak about: the requests an observable sends, the body of a
  request, and the calls recorded in the trace of a strategy.\<close>

fun sent :: "effect list \<Rightarrow> request list" where
  "sent [] = []"
| "sent (Send q # es) = q # sent es"
| "sent (e # es) = sent es"

fun request_body :: "request \<Rightarrow> obj" where
  "request_body (CreateAddress i b opts) = b"
| "request_body (UpdateAddress i b opts) = b"
| "request_body (UpdateSubscriptions b opts) = []"

text \<open>
  The billing-address part of \<open>continueAsGuest\<close> for the request \<open>req\<close>: the requested
  action and the request at once; the succeeded action, or the failure carrying the
  failed action, when the response arrives.
\<close>

definition billing_stream :: "action_creator_env \<Rightarrow> request \<Rightarrow> observable" where
  "billing_stream env req =
     \<lparr>now = [Emit ContinueAsGuestRequested, Send req],
      later = [case respond env req of
                 Inr body \<Rightarrow> Emit (ContinueAsGuestSucceeded body)
               | Inl e \<Rightarrow> Fail (Inr (ContinueAsGuestFailed e))]\<rparr>"

text \<open>
  Of the later effects of the right source of a merge, those that the schedule delivers
  before the first later effect of the left source.
\<close>

definition delivered_first :: "bool list \<Rightarrow> 'a list \<Rightarrow> 'a list" where
  "delivered_first sched ys = take (length (takeWhile Not sched)) ys"

text \<open>The calls of the script loader's \<open>getStripeClient\<close>, and the clients it resolved with.\<close>

definition is_clientLoad :: "event \<Rightarrow> bool" where
  "is_clientLoad ev = (case ev of EvGetStripeClient d l r \<Rightarrow> True | _ \<Rightarrow> False)"

definition clientLoads :: "event list \<Rightarrow> event list" where
  "clientLoads tr = filter is_clientLoad tr"

fun resolvedClients :: "event list \<Rightarrow> stripe_client list" where
  "resolvedClients [] = []"
| "resolvedClients (ev # tr) =
     (case ev of
        EvGetStripeClient d l (Inr c) \<Rightarrow> c # resolvedClients tr
      | _ \<Rightarrow> resolvedClients tr)"

text \<open>The calls of \<open>submitPayment\<close> and of the vendor's \<open>confirm\<close>, with their outcomes.\<close>

fun submitPayments :: "event list \<Rightarrow> (payment \<times> error option) list" where
  "submitPayments [] = []"
| "submitPayments (ev # tr) =
     (case ev of EvSubmitPayment p r \<Rightarrow> (p, r) # submitPayments tr | _ \<Rightarrow> submitPayments tr)"

fun confirmations :: "event list \<Rightarrow> (string option \<times> (error + confirm_result)) list" where
  "confirmations [] = []"
| "confirmations (ev # tr) =
     (case ev of EvConfirm u r \<Rightarrow> (u, r) # confirmations tr | _ \<Rightarrow> confirmations tr)"

text \<open>The calls of the checkout instance's \<open>loadActions\<close>, with their outcomes, and the
  errors that the caller's \<open>onError\<close> was called with.\<close>

fun loadActionsCalls ::
  "event list \<Rightarrow> (stripe_checkout_instance \<times> (error + load_actions_result)) list" where
  "loadActionsCalls [] = []"
| "loadActionsCalls (ev # tr) =
     (case ev of EvLoadActions co r \<Rightarrow> (co, r) # loadActionsCalls tr | _ \<Rightarrow> loadActionsCalls tr)"

fun onErrorCalls :: "event list \<Rightarrow> error list" where
  "onErrorCalls [] = []"
| "onErrorCalls (ev # tr) =
     (case ev of EvOnError e \<Rightarrow> e # onErrorCalls tr | _ \<Rightarrow> onErrorCalls tr)"


text \<open>A sequence of \<open>initialize\<close> calls on one instance, each awaited before the next.\<close>

fun initialize_all :: "strategy_env \<Rightarrow> payment_initialize_options list \<Rightarrow> strategy \<Rightarrow> strategy" where
  "initialize_all env [] s = s"
| "initialize_all env (options # rest) s = initialize_all env rest (snd (initialize env options s))"

section \<open>Scenarios\<close>

text \<open>
  Concrete collaborators and inputs, after the mocks of the strategy's test suite: a
  payment method with a client token, a loader that resolves with client 1, a checkout
  instance 2 whose actions load, a payment element 3. The first \<open>submitPayment\<close> is
  rejected with an additional-action error, the second with a plain error; the
  confirmation returns a paid session.
\<close>

definition additional_action_body :: request_error_body where
  "additional_action_body =
     \<lparr>errors = [''additional_action_required''],
      additional_action =
        Some \<lparr>aar_data = Some \<lparr>token = Some ''token'',
                                redirect_url = Some ''https://redirect-url.com''\<rparr>\<rparr>\<rparr>"

definition paid_session :: stripe_checkout_session where
  "paid_session =
     \<lparr>session_id = Some ''paymentIntentId'', session_status = Some Paid, session_total = None\<rparr>"

definition test_env :: strategy_env where
  "test_env =
     \<lparr>getCheckoutOrThrow = (\<lambda>h. Inr \<lparr>isStoreCreditApplied = False\<rparr>),
      getPaymentMethodOrThrow =
        (\<lambda>h m g. Inr \<lparr>clientToken = Some ''clientToken'',
                       initializationData =
                         Some \<lparr>stripePublishableKey = ''key'', enableLink = False\<rparr>\<rparr>),
      getCart = (\<lambda>h. Some \<lparr>cart_id = ''cart''\<rparr>),
      pis_getBillingAddress =
        (\<lambda>h. Some \<lparr>addr_email = Some ''test@bigcommerce.com'', postalCode = None\<rparr>),
      getShippingAddress = (\<lambda>h. None),
      getCartLocale = (\<lambda>h. ''en''),
      applyStoreCredit = (\<lambda>h b. None),
      loadPaymentMethod = (\<lambda>h g m. None),
      submitOrder = (\<lambda>h ob opts. None),
      submitPayment =
        (\<lambda>h p. if submitPayments h = [] then Some (RequestError additional_action_body)
               else Some (GenericError ''second submitPayment error'')),
      scriptLoader_getStripeClient = (\<lambda>h d l. Inr 1),
      getStripeCheckout = (\<lambda>h c t. Inr 2),
      loadActions =
        (\<lambda>h co. Inr \<lparr>la_actions = Some \<lparr>hasGetSession = False\<rparr>, la_error = None\<rparr>),
      updateEmail = (\<lambda>h e. None),
      confirm = (\<lambda>h u. Inr \<lparr>cr_session = Some paid_session, cr_error = None\<rparr>),
      getSession = (\<lambda>h. Inr None),
      getPaymentElement = (\<lambda>h co. None),
      createPaymentElement = (\<lambda>h co ops. Some 3),
      getCurrencySelectorElement = (\<lambda>h co. None),
      createCurrencySelectorElement = (\<lambda>h co. None),
      getElementById = (\<lambda>h i. False),
      isAdditionalActionError = (\<lambda>errs. List.member errs ''additional_action_required''),
      isStripePaymentMethodLike = (\<lambda>pm. initializationData pm \<noteq> None),
      onError = (\<lambda>h e. None)\<rparr>"

definition test_stripe_options :: stripe_ocs_options where
  "test_stripe_options =
     \<lparr>containerId = ''containerId'', appearance = None, fonts = None,
      layout = None, has_onError = True, has_paymentMethodSelect = False,
      has_handleClosePaymentMethod = False, has_togglePreloader = False\<rparr>"

definition test_options :: payment_initialize_options where
  "test_options =
     \<lparr>stripeocs = Some test_stripe_options,
      init_methodId = ''checkout_session'',
      init_gatewayId = Some ''stripeocs''\<rparr>"


text \<open>An instance that holds a client and a checkout instance, as after \<open>initialize\<close>.\<close>

definition initialized :: strategy where
  "initialized =
     \<lparr>stripeClient = Some 1, stripeCheckout = Some 2, selectedMethodId = None, trace = []\<rparr>"













text \<open>The script fails to load the first time and loads the second time.\<close>

definition env_flaky_loader :: strategy_env where
  "env_flaky_loader =
     test_env\<lparr>scriptLoader_getStripeClient :=
       (\<lambda>h d l. if clientLoads h = [] then Inl (GenericError ''script failed'') else Inr 1)\<rparr>"

text \<open>The checkout instance has a payment element already.\<close>

definition env_mounted :: strategy_env where
  "env_mounted = test_env\<lparr>getPaymentElement := (\<lambda>h co. Some 3)\<rparr>"

text \<open>A host window, before and after the script ran, with a constructor that records the
  key and the account it was called with; a window with a client attached.\<close>

definition test_constructor :: "string \<Rightarrow> stripe_constructor_options \<Rightarrow> string \<times> string" where
  "test_constructor key opts = (key, stripeAccount opts)"

definition empty_window :: "(string \<times> string) stripe_host_window" where
  "empty_window = \<lparr>bcStripeClient = None, Stripe = None, console = []\<rparr>"

definition loaded_window :: "(string \<times> string) stripe_host_window" where
  "loaded_window = \<lparr>bcStripeClient = None, Stripe = Some test_constructor, console = []\<rparr>"

definition test_loadScript :: "(string \<times> string) script_loader" where
  "test_loadScript url w = (None, w\<lparr>Stripe := Some test_constructor\<rparr>)"

definition attached_window :: "(string \<times> string) stripe_host_window" where
  "attached_window =
     \<lparr>bcStripeClient = Some (''pk_test_iyRKkVUt0YWpJ3Lq7mfsw3VW008KiFDH4s'', ''acct_1''),
      Stripe = Some test_constructor, console = []\<rparr>"

text \<open>A language service with one translation, and formatting libraries that return the
  message as it is.\<close>

definition test_service :: language_service where
  "test_service =
     \<lparr>ls_locale = ''en'',
      ls_locales = [(''optimized_checkout.greeting'', JStr ''en'')],
      ls_translations = [(''optimized_checkout.greeting'', JStr ''Hello'')],
      ls_formatters = [],
      ls_isCspNonceExperimentEnabled = True,
      ls_warnings = []\<rparr>"

definition test_lib :: format_lib where
  "test_lib =
     \<lparr>escapeSpecialCharacters = (\<lambda>m. m),
      newIntlMessageFormat = (\<lambda>m l. None),
      intlFormat = (\<lambda>m l d. Inr m),
      messageFormatCompile = (\<lambda>l m. None),
      compiledCall = (\<lambda>m l d. Inr m)\<rparr>"

text \<open>Store states, guest credentials and collaborators of the billing address action
  creator: the backend answers every request with the checkout, and the subscriptions
  action creator requests, sends and succeeds.\<close>

definition test_checkout :: checkout where
  "test_checkout = \<lparr>checkout_id = ''checkout-1''\<rparr>"

definition test_ac_env :: action_creator_env where
  "test_ac_env =
     \<lparr>respond = (\<lambda>req. Inr test_checkout),
      updateSubscriptions =
        (\<lambda>b opts. \<lparr>now = [Emit UpdateSubscriptionsRequested, Send (UpdateSubscriptions b opts)],
                    later = [Emit UpdateSubscriptionsSucceeded]\<rparr>)\<rparr>"

text \<open>The same backend with a subscriptions action creator whose request fails.\<close>

definition failing_subscriptions_env :: action_creator_env where
  "failing_subscriptions_env =
     \<lparr>respond = (\<lambda>req. Inr test_checkout),
      updateSubscriptions =
        (\<lambda>b opts. \<lparr>now = [Emit UpdateSubscriptionsRequested, Send (UpdateSubscriptions b opts)],
                    later = [Fail (Inr (UpdateSubscriptionsFailed (GenericError ''subscriptions'')))]\<rparr>)\<rparr>"

definition guest_state :: internal_checkout_selectors where
  "guest_state =
     \<lparr>getCheckout = Some test_checkout, getConfig = None, getCustomer = None,
      getBillingAddress = None\<rparr>"

definition signed_in_state :: internal_checkout_selectors where
  "signed_in_state =
     \<lparr>getCheckout = Some test_checkout, getConfig = None,
      getCustomer = Some \<lparr>isGuest = False\<rparr>, getBillingAddress = None\<rparr>"

definition no_checkout_signed_in_state :: internal_checkout_selectors where
  "no_checkout_signed_in_state =
     \<lparr>getCheckout = None, getConfig = None,
      getCustomer = Some \<lparr>isGuest = False\<rparr>, getBillingAddress = None\<rparr>"

definition flag_off_state :: internal_checkout_selectors where
  "flag_off_state =
     \<lparr>getCheckout = Some test_checkout,
      getConfig =
        Some \<lparr>features = [(''CHECKOUT-8392.fix_billing_creation_in_checkout'', JBool False)]\<rparr>,
      getCustomer = None, getBillingAddress = None\<rparr>"

definition stored_billing_address :: obj where
  "stored_billing_address =
     [(''id'', JStr ''55c96cda6f04c''), (''email'', JStr ''old@x.com''),
      (''firstName'', JStr ''Test''), (''country'', JStr ''United States'')]"

definition stored_state :: internal_checkout_selectors where
  "stored_state =
     \<lparr>getCheckout = Some test_checkout, getConfig = None, getCustomer = None,
      getBillingAddress = Some stored_billing_address\<rparr>"

definition guest_credentials :: obj where
  "guest_credentials = [(''email'', JStr ''a@b.com'')]"

definition consenting_credentials :: obj where
  "consenting_credentials =
     [(''email'', JStr ''a@b.com''), (''acceptsMarketingNewsletter'', JBool True)]"

definition credentials_with_id :: obj where
  "credentials_with_id = [(''id'', JStr ''55c96cda6f04c''), (''email'', JStr ''a@b.com'')]"

section \<open>Properties of objects and observables\<close>

lemma get_prop_update: "get_prop (AList.update k v al) k' = (if k' = k then v else get_prop al k')"
  by (simp add: get_prop_def update_conv')

lemma map_of_spread:
  "distinct (map fst b) \<Longrightarrow> map_of (spread a b) = map_of a ++ map_of b"
  unfolding spread_def
proof (induction b arbitrary: a)
  case Nil
  show ?case by simp
next
  case (Cons p b)
  obtain k v where p: "p = (k, v)" by (cases p)
  from Cons.prems p have d: "distinct (map fst b)" and nk: "map_of b k = None"
    by (auto simp: map_of_eq_None_iff)
  have unfold: "fold (\<lambda>(k, v). AList.update k v) ((k, v) # b) a
          = fold (\<lambda>(k, v). AList.update k v) b (AList.update k v a)"
    by simp
  have ih: "map_of (fold (\<lambda>(k, v). AList.update k v) b (AList.update k v a))
          = map_of (AList.update k v a) ++ map_of b"
    by (rule Cons.IH[OF d])
  have step: "map_of (AList.update k v a) ++ map_of b = map_of a ++ map_of ((k, v) # b)"
    using nk by (auto simp: update_conv' map_add_def fun_eq_iff split: option.splits)
  show ?case unfolding p by (simp only: unfold ih step)
qed

lemma get_prop_spread:
  assumes "distinct (map fst b)"
  shows "get_prop (spread a b) k = (if k \<in> fst ` set b then get_prop b k else get_prop a k)"
proof -
  have "(k \<in> fst ` set b) = (map_of b k \<noteq> None)"
    by (simp add: map_of_eq_None_iff)
  then show ?thesis
    by (cases "map_of b k") (simp_all add: get_prop_def map_of_spread[OF assms] map_add_def)
qed


lemma get_prop_delete:
  "get_prop (AList.delete k al) k' = (if k' = k then JUndefined else get_prop al k')"
  by (simp add: get_prop_def delete_conv')

lemma has_fail_simps [simp]:
  "has_fail [] = False"
  "has_fail (e # es) = (is_Fail e \<or> has_fail es)"
  "has_fail (es @ es') = (has_fail es \<or> has_fail es')"
  by (auto simp: has_fail_def list_ex_iff)

lemma until_fail_id: "\<not> has_fail es \<Longrightarrow> until_fail es = es"
  by (induction es) simp_all

lemma interleave_Nil2 [simp]: "interleave sched xs [] = xs"
  by (cases xs) simp_all

lemma set_interleave: "set (interleave sched xs ys) = set xs \<union> set ys"
  by (induction sched xs ys rule: interleave.induct) auto

lemma until_fail_append:
  "until_fail (xs @ ys) = (if has_fail xs then until_fail xs else xs @ until_fail ys)"
  by (induction xs) simp_all

lemma interleave_single:
  "interleave sched [x] ys =
     delivered_first sched ys @ x # drop (length (delivered_first sched ys)) ys"
proof (induction sched arbitrary: ys)
  case Nil
  show ?case by (cases ys) (simp_all add: delivered_first_def)
next
  case (Cons b sched)
  show ?case
  proof (cases ys)
    case Nil
    then show ?thesis by (simp add: delivered_first_def)
  next
    case (Cons y ys')
    with Cons.IH[of ys'] show ?thesis by (cases b) (simp_all add: delivered_first_def)
  qed
qed


section \<open>Properties of the billing address action creator\<close>

lemma createOrUpdate_request:
  "\<exists>req. createOrUpdateBillingAddress env i b flag has opts = ([Send req], respond env req)
     \<and> request_body req = b
     \<and> (req = CreateAddress i b opts \<or> req = UpdateAddress i b opts)
     \<and> ((truthy flag \<and> \<not> has) \<or> (\<not> truthy flag \<and> \<not> truthy (get_prop b ''id''))
          \<longrightarrow> req = CreateAddress i b opts)"
  by (auto simp: createOrUpdateBillingAddress_def requestSender_createAddress_def
        requestSender_updateAddress_def)

lemma billing_pipeline:
  "rx_catchError (throwErrorAction ContinueAsGuestFailed)
     (rx_concat (rx_of ContinueAsGuestRequested)
        (rx_defer ([Send req], map_sum id ContinueAsGuestSucceeded (respond env req))))
   = billing_stream env req"
  by (cases "respond env req")
     (simp_all add: rx_catchError_def rx_concat_def rx_of_def rx_defer_def throwErrorAction_def
        rx_throwError_def billing_stream_def)

lemma continueAsGuest_ok:
  assumes "getCheckout state = Some checkout" and "\<forall>c. getCustomer state = Some c \<longrightarrow> isGuest c"
  shows "\<exists>req. continueAsGuest env credentials opts sched state =
            Inr (rx_merge sched (billing_stream env req) (updateCustomerConsent env credentials opts))
     \<and> request_body req =
          (case getBillingAddress state of
             None \<Rightarrow> credentials
           | Some ba \<Rightarrow> spread (AList.delete ''country'' ba) credentials)
     \<and> (req = CreateAddress (checkout_id checkout) (request_body req) opts
          \<or> req = UpdateAddress (checkout_id checkout) (request_body req) opts)
     \<and> (getBillingAddress state = None \<and>
          (truthy (isBillingFixExperimentEnabled state) \<or> \<not> truthy (get_prop credentials ''id''))
          \<longrightarrow> req = CreateAddress (checkout_id checkout) credentials opts)"
proof -
  let ?b = "case getBillingAddress state of
             None \<Rightarrow> credentials
           | Some ba \<Rightarrow> spread (AList.delete ''country'' ba) credentials"
  from createOrUpdate_request[of env "checkout_id checkout" ?b "isBillingFixExperimentEnabled state"
      "\<not> isEmpty (getBillingAddress state)" opts]
  obtain req where req: "createOrUpdateBillingAddress env (checkout_id checkout) ?b
      (isBillingFixExperimentEnabled state) (\<not> isEmpty (getBillingAddress state)) opts
        = ([Send req], respond env req)"
     "request_body req = ?b"
     "req = CreateAddress (checkout_id checkout) ?b opts \<or> req = UpdateAddress (checkout_id checkout) ?b opts"
     "(truthy (isBillingFixExperimentEnabled state) \<and> \<not> \<not> isEmpty (getBillingAddress state))
        \<or> (\<not> truthy (isBillingFixExperimentEnabled state) \<and> \<not> truthy (get_prop ?b ''id''))
        \<longrightarrow> req = CreateAddress (checkout_id checkout) ?b opts"
    by blast
  have guest: "\<not> (case getCustomer state of None \<Rightarrow> False | Some customer \<Rightarrow> \<not> isGuest customer)"
    using assms(2) by (simp split: option.splits)
  have "continueAsGuest env credentials opts sched state =
            Inr (rx_merge sched (billing_stream env req) (updateCustomerConsent env credentials opts))"
    using assms(1) guest req(1) by (simp add: continueAsGuest_def Let_def billing_pipeline)
  moreover have "getBillingAddress state = None \<and>
          (truthy (isBillingFixExperimentEnabled state) \<or> \<not> truthy (get_prop credentials ''id''))
          \<longrightarrow> req = CreateAddress (checkout_id checkout) credentials opts"
    using req(4) by (auto simp: isEmpty_def)
  ultimately show ?thesis using req(2,3) by auto
qed

lemma merge_billing_now:
  "take 2 (now (rx_merge sched (billing_stream env req) sub)) = [Emit ContinueAsGuestRequested, Send req]"
  by (simp add: rx_merge_def billing_stream_def)

lemma merge_billing_later:
  assumes "respond env req = Inr body"
  shows "later (rx_merge sched (billing_stream env req) sub) =
           (if has_fail (now sub) then []
            else if has_fail (delivered_first sched (later sub))
              then until_fail (delivered_first sched (later sub))
            else delivered_first sched (later sub) @
                   Emit (ContinueAsGuestSucceeded body) #
                   until_fail (drop (length (delivered_first sched (later sub))) (later sub)))"
  using assms
  by (simp add: rx_merge_def billing_stream_def interleave_single until_fail_append)

section \<open>Claims about the billing address action creator\<close>

text \<open>
  C2 (as amended). \<open>continueAsGuest\<close> throws \<open>MissingDataError(MissingCheckout)\<close> when the
  state has no checkout, and throws \<open>UnableToContinueAsGuestError\<close> when the state has a
  checkout and a signed-in (non-guest) customer. Both are thrown by the thunk itself:
  the result is the error and no observable exists, so no action is emitted and no
  request is sent.
\<close>

theorem continueAsGuest_preconditions:
  "(getCheckout state = None \<longrightarrow>
      continueAsGuest env credentials opts sched state = Inl (MissingDataError MissingCheckout))
   \<and> (getCheckout state \<noteq> None \<and> getCustomer state = Some customer \<and> \<not> isGuest customer \<longrightarrow>
      continueAsGuest env credentials opts sched state = Inl UnableToContinueAsGuestError)"
  by (auto simp: continueAsGuest_def)

theorem continueAsGuest_preconditions_witness:
  "getCheckout no_checkout_signed_in_state = None
   \<and> continueAsGuest test_ac_env guest_credentials None [] no_checkout_signed_in_state
       = Inl (MissingDataError MissingCheckout)
   \<and> getCheckout signed_in_state \<noteq> None
   \<and> getCustomer signed_in_state = Some \<lparr>isGuest = False\<rparr>
   \<and> \<not> isGuest \<lparr>isGuest = False\<rparr>
   \<and> continueAsGuest test_ac_env guest_credentials None [] signed_in_state
       = Inl UnableToContinueAsGuestError"
  using continueAsGuest_preconditions
          [where state = no_checkout_signed_in_state and env = test_ac_env
             and credentials = guest_credentials and opts = None and sched = "[]"
             and customer = "\<lparr>isGuest = False\<rparr>"]
        continueAsGuest_preconditions
          [where state = signed_in_state and env = test_ac_env
             and credentials = guest_credentials and opts = None and sched = "[]"
             and customer = "\<lparr>isGuest = False\<rparr>"]
  by (simp add: no_checkout_signed_in_state_def signed_in_state_def)

text \<open>
  C2 as stated fails where the state has no checkout and a signed-in customer: the
  missing checkout is reported, not \<open>UnableToContinueAsGuestError\<close>.
\<close>

theorem continueAsGuest_signed_in_without_checkout:
  "getCustomer no_checkout_signed_in_state = Some \<lparr>isGuest = False\<rparr>
   \<and> continueAsGuest test_ac_env guest_credentials None [] no_checkout_signed_in_state
       \<noteq> Inl UnableToContinueAsGuestError"
  by (simp add: continueAsGuest_def no_checkout_signed_in_state_def)

text \<open>
  C3. When \<open>updateAddress\<close> sends its request (a checkout exists), it sends one request,
  and in its body: the email is the stored billing address's email if the caller's
  address has no email (it is undefined) and a billing address is stored; the email is
  the caller's if it is given, the empty string included; the id is the stored billing
  address's id if that address has one (a non-empty id).
\<close>

theorem updateAddress_request_body:
  assumes "getCheckout state = Some checkout"
  shows "\<exists>req. sent (now (updateAddress env address opts state)) = [req] \<and>
         (\<forall>ba. getBillingAddress state = Some ba \<and> typeof_undefined (get_prop address ''email'')
            \<longrightarrow> get_prop (request_body req) ''email'' = get_prop ba ''email'') \<and>
         (\<not> typeof_undefined (get_prop address ''email'')
            \<longrightarrow> get_prop (request_body req) ''email'' = get_prop address ''email'') \<and>
         (\<forall>ba. getBillingAddress state = Some ba \<and> truthy (get_prop ba ''id'')
            \<longrightarrow> get_prop (request_body req) ''id'' = get_prop ba ''id'')"
proof -
  let ?b = "updateAddress_body address (getBillingAddress state)"
  from createOrUpdate_request[of env "checkout_id checkout" ?b "isBillingFixExperimentEnabled state"
      "\<not> isEmpty (getBillingAddress state)" opts]
  obtain req where req: "createOrUpdateBillingAddress env (checkout_id checkout) ?b
      (isBillingFixExperimentEnabled state) (\<not> isEmpty (getBillingAddress state)) opts
        = ([Send req], respond env req)"
     "request_body req = ?b" by blast
  have "sent (now (updateAddress env address opts state)) = [req]"
    using assms req(1) by (simp add: updateAddress_def Let_def)
  moreover have "\<forall>ba. getBillingAddress state = Some ba \<and> typeof_undefined (get_prop address ''email'')
            \<longrightarrow> get_prop ?b ''email'' = get_prop ba ''email''"
    by (auto simp: updateAddress_body_def Let_def get_prop_update)
  moreover have "\<not> typeof_undefined (get_prop address ''email'')
            \<longrightarrow> get_prop ?b ''email'' = get_prop address ''email''"
    by (auto simp: updateAddress_body_def Let_def get_prop_update split: option.splits)
  moreover have "\<forall>ba. getBillingAddress state = Some ba \<and> truthy (get_prop ba ''id'')
            \<longrightarrow> get_prop ?b ''id'' = get_prop ba ''id''"
    by (auto simp: updateAddress_body_def Let_def get_prop_update)
  ultimately show ?thesis using req(2) by auto
qed

theorem updateAddress_request_body_witness:
  "getCheckout stored_state = Some test_checkout
   \<and> getBillingAddress stored_state = Some stored_billing_address
   \<and> typeof_undefined (get_prop [(''firstName'', JStr ''Foo'')] ''email'')
   \<and> \<not> typeof_undefined (get_prop [(''email'', JStr [])] ''email'')
   \<and> truthy (get_prop stored_billing_address ''id'')
   \<and> (\<exists>req. sent (now (updateAddress test_ac_env [(''firstName'', JStr ''Foo'')] None stored_state)) = [req]
          \<and> get_prop (request_body req) ''email'' = JStr ''old@x.com''
          \<and> get_prop (request_body req) ''id'' = JStr ''55c96cda6f04c'')
   \<and> (\<exists>req. sent (now (updateAddress test_ac_env [(''email'', JStr [])] None stored_state)) = [req]
          \<and> get_prop (request_body req) ''email'' = JStr [])"
proof -
  have h: "getCheckout stored_state = Some test_checkout"
    by (simp add: stored_state_def)
  have b: "getBillingAddress stored_state = Some stored_billing_address"
    by (simp add: stored_state_def)
  have u: "typeof_undefined (get_prop [(''firstName'', JStr ''Foo'')] ''email'')"
    by (simp add: typeof_undefined_def get_prop_def)
  have p: "\<not> typeof_undefined (get_prop [(''email'', JStr [])] ''email'')"
    by (simp add: typeof_undefined_def get_prop_def)
  have i: "truthy (get_prop stored_billing_address ''id'')"
    by (simp add: stored_billing_address_def get_prop_def)
  have e: "get_prop stored_billing_address ''email'' = JStr ''old@x.com''"
          "get_prop stored_billing_address ''id'' = JStr ''55c96cda6f04c''"
          "get_prop [(''email'', JStr [])] ''email'' = JStr []"
    by (simp_all add: stored_billing_address_def get_prop_def)
  from updateAddress_request_body[OF h, of test_ac_env "[(''firstName'', JStr ''Foo'')]" None] b u i e
  have 1: "\<exists>req. sent (now (updateAddress test_ac_env [(''firstName'', JStr ''Foo'')] None stored_state)) = [req]
          \<and> get_prop (request_body req) ''email'' = JStr ''old@x.com''
          \<and> get_prop (request_body req) ''id'' = JStr ''55c96cda6f04c''"
    by auto
  from updateAddress_request_body[OF h, of test_ac_env "[(''email'', JStr [])]" None] p e
  have 2: "\<exists>req. sent (now (updateAddress test_ac_env [(''email'', JStr [])] None stored_state)) = [req]
          \<and> get_prop (request_body req) ''email'' = JStr []"
    by auto
  from h b u p i 1 2 show ?thesis by blast
qed

text \<open>
  C4 (as amended). In a state with a checkout and no signed-in customer,
  \<open>continueAsGuest\<close> returns an observable that first emits \<open>ContinueAsGuestRequested\<close> and
  sends one billing address request. With no stored billing address the request is a
  create-address request carrying the credentials, provided the billing fix is enabled
  (the default) or the credentials carry no id. When the request succeeds, the observable
  emits \<open>ContinueAsGuestSucceeded\<close> with the returned checkout, unless the subscription
  stream merged with it has failed before the response is delivered: it has failed at
  once, and then nothing is delivered later; or one of its later effects that the
  schedule delivers before the response is a failure, and then the effects up to that
  failure are delivered and nothing else. Otherwise the later effects are those delivered
  first, the succeeded action, and the rest of the subscription stream up to its first
  failure. With a stored billing address, the body of the request is that address without
  its country, with the credentials spread over it: each property of the credentials
  overrides the property of the address.
\<close>

theorem continueAsGuest_requests:
  assumes "getCheckout state = Some checkout" and "\<forall>c. getCustomer state = Some c \<longrightarrow> isGuest c"
  shows "\<exists>req ob. continueAsGuest env credentials opts sched state = Inr ob
     \<and> take 2 (now ob) = [Emit ContinueAsGuestRequested, Send req]
     \<and> (getBillingAddress state = None \<and>
          (truthy (isBillingFixExperimentEnabled state) \<or> \<not> truthy (get_prop credentials ''id''))
          \<longrightarrow> req = CreateAddress (checkout_id checkout) credentials opts)
     \<and> (\<forall>body. respond env req = Inr body \<longrightarrow>
           (has_fail (now (updateCustomerConsent env credentials opts)) \<longrightarrow> later ob = [])
         \<and> (\<not> has_fail (now (updateCustomerConsent env credentials opts))
              \<and> has_fail (delivered_first sched (later (updateCustomerConsent env credentials opts)))
            \<longrightarrow> later ob =
                  until_fail (delivered_first sched (later (updateCustomerConsent env credentials opts))))
         \<and> (\<not> has_fail (now (updateCustomerConsent env credentials opts))
              \<and> \<not> has_fail (delivered_first sched (later (updateCustomerConsent env credentials opts)))
            \<longrightarrow> later ob =
                  delivered_first sched (later (updateCustomerConsent env credentials opts)) @
                  Emit (ContinueAsGuestSucceeded body) #
                  until_fail
                    (drop (length (delivered_first sched
                                     (later (updateCustomerConsent env credentials opts))))
                       (later (updateCustomerConsent env credentials opts)))))
     \<and> (\<forall>ba. getBillingAddress state = Some ba \<longrightarrow>
           request_body req = spread (AList.delete ''country'' ba) credentials
         \<and> (distinct (map fst credentials) \<longrightarrow>
              (\<forall>k. get_prop (request_body req) k =
                 (if k \<in> fst ` set credentials then get_prop credentials k
                  else if k = ''country'' then JUndefined else get_prop ba k))))"
proof -
  from continueAsGuest_ok[OF assms, of env credentials opts sched]
  obtain req where req:
    "continueAsGuest env credentials opts sched state =
            Inr (rx_merge sched (billing_stream env req) (updateCustomerConsent env credentials opts))"
    "request_body req =
          (case getBillingAddress state of
             None \<Rightarrow> credentials
           | Some ba \<Rightarrow> spread (AList.delete ''country'' ba) credentials)"
    "getBillingAddress state = None \<and>
          (truthy (isBillingFixExperimentEnabled state) \<or> \<not> truthy (get_prop credentials ''id''))
          \<longrightarrow> req = CreateAddress (checkout_id checkout) credentials opts"
    by blast
  let ?sub = "updateCustomerConsent env credentials opts"
  let ?ob = "rx_merge sched (billing_stream env req) ?sub"
  have body: "\<forall>ba. getBillingAddress state = Some ba \<longrightarrow>
           request_body req = spread (AList.delete ''country'' ba) credentials
         \<and> (distinct (map fst credentials) \<longrightarrow>
              (\<forall>k. get_prop (request_body req) k =
                 (if k \<in> fst ` set credentials then get_prop credentials k
                  else if k = ''country'' then JUndefined else get_prop ba k)))"
    using req(2) by (simp add: get_prop_spread get_prop_delete)
  have lat: "\<forall>body. respond env req = Inr body \<longrightarrow>
           (has_fail (now ?sub) \<longrightarrow> later ?ob = [])
         \<and> (\<not> has_fail (now ?sub) \<and> has_fail (delivered_first sched (later ?sub))
            \<longrightarrow> later ?ob = until_fail (delivered_first sched (later ?sub)))
         \<and> (\<not> has_fail (now ?sub) \<and> \<not> has_fail (delivered_first sched (later ?sub))
            \<longrightarrow> later ?ob =
                  delivered_first sched (later ?sub) @
                  Emit (ContinueAsGuestSucceeded body) #
                  until_fail (drop (length (delivered_first sched (later ?sub))) (later ?sub)))"
    by (simp add: merge_billing_later)
  have nw: "take 2 (now ?ob) = [Emit ContinueAsGuestRequested, Send req]"
    by (rule merge_billing_now)
  from req(1) nw req(3) lat body show ?thesis
    by (intro exI[of _ req] exI[of _ ?ob] conjI)
qed

theorem continueAsGuest_requests_witness:
  "getCheckout guest_state = Some test_checkout
   \<and> getCustomer guest_state = None
   \<and> getBillingAddress guest_state = None
   \<and> truthy (isBillingFixExperimentEnabled guest_state)
   \<and> respond failing_subscriptions_env (CreateAddress ''checkout-1'' consenting_credentials None)
       = Inr test_checkout
   \<and> \<not> has_fail (now (updateCustomerConsent failing_subscriptions_env consenting_credentials None))
   \<and> delivered_first [True]
         (later (updateCustomerConsent failing_subscriptions_env consenting_credentials None)) = []
   \<and> (\<exists>ob. continueAsGuest failing_subscriptions_env consenting_credentials None [True] guest_state
              = Inr ob
         \<and> take 2 (now ob) =
             [Emit ContinueAsGuestRequested,
              Send (CreateAddress ''checkout-1'' consenting_credentials None)]
         \<and> later ob =
             [Emit (ContinueAsGuestSucceeded test_checkout),
              Fail (Inr (UpdateSubscriptionsFailed (GenericError ''subscriptions'')))])
   \<and> getCheckout stored_state = Some test_checkout
   \<and> getCustomer stored_state = None
   \<and> getBillingAddress stored_state = Some stored_billing_address
   \<and> distinct (map fst guest_credentials)
   \<and> (\<exists>req ob. continueAsGuest test_ac_env guest_credentials None [] stored_state = Inr ob
         \<and> take 2 (now ob) = [Emit ContinueAsGuestRequested, Send req]
         \<and> request_body req =
             [(''id'', JStr ''55c96cda6f04c''), (''email'', JStr ''a@b.com''),
              (''firstName'', JStr ''Test'')]
         \<and> get_prop (request_body req) ''email'' = JStr ''a@b.com''
         \<and> get_prop (request_body req) ''country'' = JUndefined
         \<and> get_prop (request_body req) ''firstName'' = JStr ''Test'')"
proof -
  have g: "getCheckout guest_state = Some test_checkout"
          "\<forall>c. getCustomer guest_state = Some c \<longrightarrow> isGuest c"
          "getBillingAddress guest_state = None"
          "truthy (isBillingFixExperimentEnabled guest_state)"
    by (simp_all add: guest_state_def isBillingFixExperimentEnabled_def nullish_def)
  have r: "\<forall>req. respond failing_subscriptions_env req = Inr test_checkout"
    by (simp add: failing_subscriptions_env_def)
  have sub: "updateCustomerConsent failing_subscriptions_env consenting_credentials None =
       \<lparr>now = [Emit UpdateSubscriptionsRequested,
               Send (UpdateSubscriptions
                       \<lparr>sub_email = JStr ''a@b.com'', acceptsMarketingNewsletter = JBool True,
                        acceptsAbandonedCartEmails = JBool False\<rparr> None)],
        later = [Fail (Inr (UpdateSubscriptionsFailed (GenericError ''subscriptions'')))]\<rparr>"
    by code_simp
  have nf: "\<not> has_fail (now (updateCustomerConsent failing_subscriptions_env consenting_credentials None))"
    by (simp add: sub)
  have df: "delivered_first [True]
         (later (updateCustomerConsent failing_subscriptions_env consenting_credentials None)) = []"
    by (simp add: delivered_first_def)
  have st: "getCheckout stored_state = Some test_checkout"
           "\<forall>c. getCustomer stored_state = Some c \<longrightarrow> isGuest c"
           "getBillingAddress stored_state = Some stored_billing_address"
    by (simp_all add: stored_state_def)
  have nc: "getCustomer guest_state = None" "getCustomer stored_state = None"
    by (simp_all add: guest_state_def stored_state_def)
  have cid: "checkout_id test_checkout = ''checkout-1''"
    by (simp add: test_checkout_def)
  have dc: "distinct (map fst guest_credentials)"
    by (simp add: guest_credentials_def)
  from continueAsGuest_requests[OF g(1,2), of failing_subscriptions_env consenting_credentials None "[True]"]
       g(3,4) r nf df cid
  have 1: "\<exists>ob. continueAsGuest failing_subscriptions_env consenting_credentials None [True] guest_state
              = Inr ob
         \<and> take 2 (now ob) =
             [Emit ContinueAsGuestRequested,
              Send (CreateAddress ''checkout-1'' consenting_credentials None)]
         \<and> later ob =
             [Emit (ContinueAsGuestSucceeded test_checkout),
              Fail (Inr (UpdateSubscriptionsFailed (GenericError ''subscriptions'')))]"
    by (auto simp: sub)
  have sp: "spread (AList.delete ''country'' stored_billing_address) guest_credentials =
             [(''id'', JStr ''55c96cda6f04c''), (''email'', JStr ''a@b.com''),
              (''firstName'', JStr ''Test'')]"
    by code_simp
  have props:
    "(if ''email'' \<in> fst ` set guest_credentials then get_prop guest_credentials ''email''
      else if ''email'' = ''country'' then JUndefined else get_prop stored_billing_address ''email'')
       = JStr ''a@b.com''"
    "(if ''country'' \<in> fst ` set guest_credentials then get_prop guest_credentials ''country''
      else if ''country'' = ''country'' then JUndefined else get_prop stored_billing_address ''country'')
       = JUndefined"
    "(if ''firstName'' \<in> fst ` set guest_credentials then get_prop guest_credentials ''firstName''
      else if ''firstName'' = ''country'' then JUndefined
      else get_prop stored_billing_address ''firstName'')
       = JStr ''Test''"
    by (simp_all add: guest_credentials_def stored_billing_address_def get_prop_def)
  from continueAsGuest_requests[OF st(1,2), of test_ac_env guest_credentials None "[]"] st(3) dc
  obtain req ob where ro:
    "continueAsGuest test_ac_env guest_credentials None [] stored_state = Inr ob"
    "take 2 (now ob) = [Emit ContinueAsGuestRequested, Send req]"
    "request_body req = spread (AList.delete ''country'' stored_billing_address) guest_credentials"
    "\<forall>k. get_prop (request_body req) k =
             (if k \<in> fst ` set guest_credentials then get_prop guest_credentials k
              else if k = ''country'' then JUndefined else get_prop stored_billing_address k)"
    by auto
  from ro(4) props have
    "get_prop (request_body req) ''email'' = JStr ''a@b.com''"
    "get_prop (request_body req) ''country'' = JUndefined"
    "get_prop (request_body req) ''firstName'' = JStr ''Test''"
    by simp_all
  with ro(1,2,3) sp have 2: "\<exists>req ob. continueAsGuest test_ac_env guest_credentials None [] stored_state = Inr ob
         \<and> take 2 (now ob) = [Emit ContinueAsGuestRequested, Send req]
         \<and> request_body req =
             [(''id'', JStr ''55c96cda6f04c''), (''email'', JStr ''a@b.com''),
              (''firstName'', JStr ''Test'')]
         \<and> get_prop (request_body req) ''email'' = JStr ''a@b.com''
         \<and> get_prop (request_body req) ''country'' = JUndefined
         \<and> get_prop (request_body req) ''firstName'' = JStr ''Test''"
    by auto
  have r1: "respond failing_subscriptions_env (CreateAddress ''checkout-1'' consenting_credentials None)
       = Inr test_checkout"
    using r by simp
  from g(1,3,4) r1 nf df st(1,3) nc dc 1 2 show ?thesis by blast
qed

text \<open>
  C4 as stated fails in a state with a checkout, no stored billing address and a
  signed-in customer: the thunk throws and nothing is emitted or sent. It fails where the
  billing fix is disabled and the credentials carry an id: the request is an update. And
  it fails where the subscription stream fails before the billing response is delivered:
  the create request is sent and succeeds, and the failure of the subscription stream
  ends the observable before \<open>ContinueAsGuestSucceeded\<close> is emitted.
\<close>

theorem continueAsGuest_create_counterexample:
  "getCheckout signed_in_state = Some test_checkout
   \<and> getBillingAddress signed_in_state = None
   \<and> continueAsGuest test_ac_env guest_credentials None [] signed_in_state
       = Inl UnableToContinueAsGuestError
   \<and> getCheckout flag_off_state = Some test_checkout
   \<and> getBillingAddress flag_off_state = None
   \<and> map_sum id (\<lambda>ob. sent (now ob))
        (continueAsGuest test_ac_env credentials_with_id None [] flag_off_state)
       = Inr [UpdateAddress ''checkout-1'' credentials_with_id None]
   \<and> getCheckout guest_state = Some test_checkout
   \<and> getCustomer guest_state = None
   \<and> getBillingAddress guest_state = None
   \<and> respond failing_subscriptions_env (CreateAddress ''checkout-1'' consenting_credentials None)
       = Inr test_checkout
   \<and> map_sum id (\<lambda>ob. take 2 (now ob))
        (continueAsGuest failing_subscriptions_env consenting_credentials None [False] guest_state)
       = Inr [Emit ContinueAsGuestRequested,
              Send (CreateAddress ''checkout-1'' consenting_credentials None)]
   \<and> map_sum id later
        (continueAsGuest failing_subscriptions_env consenting_credentials None [False] guest_state)
       = Inr [Fail (Inr (UpdateSubscriptionsFailed (GenericError ''subscriptions'')))]"
  by code_simp

text \<open>
  C5. Whenever \<open>continueAsGuest\<close> returns its observable: if both consent fields of the
  credentials are undefined or null, the subscription stream is empty and the observable
  has the effects of the billing address stream alone; otherwise the observable is the
  merge of the billing address stream with the stream that the subscriptions action
  creator returns for the email and the two consent fields, each absent field replaced by
  \<open>false\<close>. The merge is concurrent: the subscription stream is subscribed to together with
  the billing address stream, so its immediate effects come right after the requested
  action and the billing request, before the billing response.
\<close>

theorem continueAsGuest_consent:
  assumes "continueAsGuest env credentials opts sched state = Inr ob"
  shows "\<exists>req.
      (nullish (get_prop credentials ''acceptsAbandonedCartEmails'')
         \<and> nullish (get_prop credentials ''acceptsMarketingNewsletter'')
       \<longrightarrow> now ob = [Emit ContinueAsGuestRequested, Send req]
           \<and> later ob = later (billing_stream env req))
    \<and> (\<not> (nullish (get_prop credentials ''acceptsAbandonedCartEmails'')
           \<and> nullish (get_prop credentials ''acceptsMarketingNewsletter''))
       \<longrightarrow> ob = rx_merge sched (billing_stream env req)
                  (updateSubscriptions env
                     \<lparr>sub_email = get_prop credentials ''email'',
                      acceptsMarketingNewsletter =
                        (if nullish (get_prop credentials ''acceptsMarketingNewsletter'') then JBool False
                         else js_or (get_prop credentials ''acceptsMarketingNewsletter'') (JBool False)),
                      acceptsAbandonedCartEmails =
                        (if nullish (get_prop credentials ''acceptsAbandonedCartEmails'') then JBool False
                         else js_or (get_prop credentials ''acceptsAbandonedCartEmails'') (JBool False))\<rparr>
                     opts)
           \<and> now ob = until_fail ([Emit ContinueAsGuestRequested, Send req] @
                  now (updateSubscriptions env
                     \<lparr>sub_email = get_prop credentials ''email'',
                      acceptsMarketingNewsletter =
                        (if nullish (get_prop credentials ''acceptsMarketingNewsletter'') then JBool False
                         else js_or (get_prop credentials ''acceptsMarketingNewsletter'') (JBool False)),
                      acceptsAbandonedCartEmails =
                        (if nullish (get_prop credentials ''acceptsAbandonedCartEmails'') then JBool False
                         else js_or (get_prop credentials ''acceptsAbandonedCartEmails'') (JBool False))\<rparr>
                     opts)))"
proof -
  from assms obtain checkout where co: "getCheckout state = Some checkout"
    by (auto simp: continueAsGuest_def split: option.splits)
  from assms co have guest: "\<forall>c. getCustomer state = Some c \<longrightarrow> isGuest c"
    by (auto simp: continueAsGuest_def split: option.splits if_splits)
  from continueAsGuest_ok[OF co guest, of env credentials opts sched] assms
  obtain req where ob: "ob = rx_merge sched (billing_stream env req) (updateCustomerConsent env credentials opts)"
    by auto
  have nf: "js_or JUndefined (JBool False) = JBool False" "js_or JNull (JBool False) = JBool False"
    by (simp_all add: js_or_def)
  show ?thesis
    apply (rule exI[of _ req])
    apply (simp add: ob updateCustomerConsent_def Let_def)
    apply (intro conjI impI)
       apply (simp_all add: rx_merge_def rx_empty_def billing_stream_def until_fail_id)
    apply (auto simp: nullish_def nf until_fail_id split: sum.splits)
    done
qed

theorem continueAsGuest_consent_witness:
  "continueAsGuest test_ac_env guest_credentials None [] guest_state
     = Inr \<lparr>now = [Emit ContinueAsGuestRequested,
                   Send (CreateAddress ''checkout-1'' guest_credentials None)],
            later = [Emit (ContinueAsGuestSucceeded test_checkout)]\<rparr>
   \<and> nullish (get_prop guest_credentials ''acceptsAbandonedCartEmails'')
   \<and> nullish (get_prop guest_credentials ''acceptsMarketingNewsletter'')
   \<and> continueAsGuest test_ac_env consenting_credentials None [False] guest_state
     = Inr \<lparr>now = [Emit ContinueAsGuestRequested,
                   Send (CreateAddress ''checkout-1'' consenting_credentials None),
                   Emit UpdateSubscriptionsRequested,
                   Send (UpdateSubscriptions
                           \<lparr>sub_email = JStr ''a@b.com'', acceptsMarketingNewsletter = JBool True,
                            acceptsAbandonedCartEmails = JBool False\<rparr> None)],
            later = [Emit UpdateSubscriptionsSucceeded,
                     Emit (ContinueAsGuestSucceeded test_checkout)]\<rparr>
   \<and> \<not> (nullish (get_prop consenting_credentials ''acceptsAbandonedCartEmails'')
         \<and> nullish (get_prop consenting_credentials ''acceptsMarketingNewsletter''))"
proof -
  have a: "continueAsGuest test_ac_env guest_credentials None [] guest_state
     = Inr \<lparr>now = [Emit ContinueAsGuestRequested,
                   Send (CreateAddress ''checkout-1'' guest_credentials None)],
            later = [Emit (ContinueAsGuestSucceeded test_checkout)]\<rparr>"
    by code_simp
  have b: "continueAsGuest test_ac_env consenting_credentials None [False] guest_state
     = Inr \<lparr>now = [Emit ContinueAsGuestRequested,
                   Send (CreateAddress ''checkout-1'' consenting_credentials None),
                   Emit UpdateSubscriptionsRequested,
                   Send (UpdateSubscriptions
                           \<lparr>sub_email = JStr ''a@b.com'', acceptsMarketingNewsletter = JBool True,
                            acceptsAbandonedCartEmails = JBool False\<rparr> None)],
            later = [Emit UpdateSubscriptionsSucceeded,
                     Emit (ContinueAsGuestSucceeded test_checkout)]\<rparr>"
    by code_simp
  have n: "nullish (get_prop guest_credentials ''acceptsAbandonedCartEmails'')"
          "nullish (get_prop guest_credentials ''acceptsMarketingNewsletter'')"
          "\<not> (nullish (get_prop consenting_credentials ''acceptsAbandonedCartEmails'')
         \<and> nullish (get_prop consenting_credentials ''acceptsMarketingNewsletter''))"
    by (simp_all add: guest_credentials_def consenting_credentials_def get_prop_def nullish_def)
  from continueAsGuest_consent[OF a] continueAsGuest_consent[OF b] a b n
  show ?thesis by blast
qed

section \<open>Claims about the script loader and the language service\<close>

text \<open>
  C9. \<open>getStripeClient\<close> of the script loader does not depend on its
  \<open>stripePublishableKey\<close> argument: two calls that differ only in it return the same
  client or the same error and leave the same cached client and constructor on the
  window (the console output apart). When the client is constructed, the constructor
  receives the hard-coded key, not the argument.
\<close>

theorem getStripeClient_ignores_publishable_key:
  "fst (getStripeClient loadScript key1 account loc w)
     = fst (getStripeClient loadScript key2 account loc w)
   \<and> bcStripeClient (snd (getStripeClient loadScript key1 account loc w))
     = bcStripeClient (snd (getStripeClient loadScript key2 account loc w))
   \<and> Stripe (snd (getStripeClient loadScript key1 account loc w))
     = Stripe (snd (getStripeClient loadScript key2 account loc w))
   \<and> (bcStripeClient w = None \<and> load loadScript w = (Inr stripe, w1) \<longrightarrow>
        fst (getStripeClient loadScript key1 account loc w)
          = Inr (stripe ''pk_test_iyRKkVUt0YWpJ3Lq7mfsw3VW008KiFDH4s''
                   \<lparr>stripeAccount = account,
                    sco_locale = loc,
                    betas = [''payment_element_beta_2'', ''alipay_pm_beta_1'',
                             ''link_default_integration_beta_1'',
                             ''shipping_address_element_beta_1'',
                             ''address_element_beta_1''],
                    apiVersion = ''2020-03-02;alipay_beta=v1;link_beta=v1''\<rparr>))"
  by (simp add: getStripeClient_def Let_def split: option.splits prod.splits sum.splits)

theorem getStripeClient_ignores_publishable_key_witness:
  "bcStripeClient empty_window = None
   \<and> load test_loadScript empty_window = (Inr test_constructor, loaded_window)
   \<and> fst (getStripeClient test_loadScript ''pk_live_merchant'' ''acct_1'' None empty_window)
       = Inr (''pk_test_iyRKkVUt0YWpJ3Lq7mfsw3VW008KiFDH4s'', ''acct_1'')
   \<and> fst (getStripeClient test_loadScript ''pk_live_other'' ''acct_1'' None empty_window)
       = Inr (''pk_test_iyRKkVUt0YWpJ3Lq7mfsw3VW008KiFDH4s'', ''acct_1'')"
proof -
  have n: "bcStripeClient empty_window = None"
    by (simp add: empty_window_def)
  have l: "load test_loadScript empty_window = (Inr test_constructor, loaded_window)"
    by (simp add: load_def test_loadScript_def empty_window_def loaded_window_def)
  note inst = getStripeClient_ignores_publishable_key
         [where loadScript = test_loadScript and ?key1.0 = "''pk_live_merchant''"
            and ?key2.0 = "''pk_live_other''" and account = "''acct_1''" and loc = None
            and w = empty_window and stripe = test_constructor and ?w1.0 = loaded_window]
  from inst have a:
    "fst (getStripeClient test_loadScript ''pk_live_merchant'' ''acct_1'' None empty_window)
       = fst (getStripeClient test_loadScript ''pk_live_other'' ''acct_1'' None empty_window)"
    by blast
  from inst n l have
    "fst (getStripeClient test_loadScript ''pk_live_merchant'' ''acct_1'' None empty_window)
       = Inr (test_constructor ''pk_test_iyRKkVUt0YWpJ3Lq7mfsw3VW008KiFDH4s''
                \<lparr>stripeAccount = ''acct_1'',
                 sco_locale = None,
                 betas = [''payment_element_beta_2'', ''alipay_pm_beta_1'',
                          ''link_default_integration_beta_1'',
                          ''shipping_address_element_beta_1'',
                          ''address_element_beta_1''],
                 apiVersion = ''2020-03-02;alipay_beta=v1;link_beta=v1''\<rparr>)"
    by blast
  then have b:
    "fst (getStripeClient test_loadScript ''pk_live_merchant'' ''acct_1'' None empty_window)
       = Inr (''pk_test_iyRKkVUt0YWpJ3Lq7mfsw3VW008KiFDH4s'', ''acct_1'')"
    by (simp add: test_constructor_def)
  show ?thesis by (simp add: a[symmetric] b n l)
qed

text \<open>
  C10. For every key whose stored translation is absent or not a string, \<open>translate\<close>
  does not throw: it returns the prefixed key \<open>optimized_checkout.<key>\<close>, logs one
  warning, and leaves the translation table (and the formatter cache) as they were.
\<close>

theorem translate_missing_key:
  assumes "\<not> typeof_string (get_prop (ls_translations s) (''optimized_checkout.'' @ key))"
  shows "fst (translate lib key d s) = Inr (''optimized_checkout.'' @ key)
       \<and> ls_translations (snd (translate lib key d s)) = ls_translations s
       \<and> ls_formatters (snd (translate lib key d s)) = ls_formatters s
       \<and> ls_warnings (snd (translate lib key d s))
           = ls_warnings s @ [missing_key_warning (''optimized_checkout.'' @ key)]"
  using assms
  by (cases "get_prop (ls_translations s) (''optimized_checkout.'' @ key)")
     (simp_all add: translate_def KEY_PREFIX_def Let_def)

theorem translate_missing_key_witness:
  "\<not> typeof_string (get_prop (ls_translations test_service) (''optimized_checkout.'' @ ''missing''))
   \<and> fst (translate test_lib ''missing'' [] test_service) = Inr ''optimized_checkout.missing''
   \<and> ls_translations (snd (translate test_lib ''missing'' [] test_service))
       = [(''optimized_checkout.greeting'', JStr ''Hello'')]
   \<and> ls_warnings (snd (translate test_lib ''missing'' [] test_service))
       = [missing_key_warning ''optimized_checkout.missing'']"
proof -
  have h: "\<not> typeof_string (get_prop (ls_translations test_service) (''optimized_checkout.'' @ ''missing''))"
    by (simp add: test_service_def get_prop_def)
  from translate_missing_key[OF h, of test_lib "[]"] h
  show ?thesis by (simp add: test_service_def)
qed

section \<open>Properties of the strategy's steps\<close>

lemma emit_simps [simp]:
  "trace (emit ev s) = trace s @ [ev]"
  "stripeClient (emit ev s) = stripeClient s"
  "stripeCheckout (emit ev s) = stripeCheckout s"
  "selectedMethodId (emit ev s) = selectedMethodId s"
  by (simp_all add: emit_def)

lemma await_cases:
  assumes "await m f s = (r, s')"
  obtains (fail) e where "m s = (Inl e, s')" "r = Inl e"
        | (ok) a s1 where "m s = (Inr a, s1)" "f a s1 = (r, s')"
  using assms by (auto simp: await_def split: prod.splits sum.splits)

lemma call_val_eq: "call_val mk f s = (r, s') \<longleftrightarrow> f (trace s) = r \<and> s' = emit (mk r) s"
  by (auto simp: call_val_def Let_def)

lemma call_unit_eq:
  "call_unit mk f s = (r, s') \<longleftrightarrow>
     r = (case f (trace s) of None \<Rightarrow> Inr () | Some e \<Rightarrow> Inl e) \<and> s' = emit (mk (f (trace s))) s"
  by (auto simp: call_unit_def Let_def)

lemma clientLoads_simps [simp]:
  "clientLoads [] = []"
  "clientLoads (ev # tr) = (if is_clientLoad ev then ev # clientLoads tr else clientLoads tr)"
  "clientLoads (tr @ tr') = clientLoads tr @ clientLoads tr'"
  by (simp_all add: clientLoads_def)

lemma resolvedClients_append [simp]:
  "resolvedClients (tr @ tr') = resolvedClients tr @ resolvedClients tr'"
  by (induction tr) (simp_all split: event.splits sum.splits)

lemma resolvedClients_clientLoads: "resolvedClients (clientLoads tr) = resolvedClients tr"
  by (induction tr) (simp_all add: is_clientLoad_def split: event.splits sum.splits)

lemma submitPayments_append [simp]:
  "submitPayments (tr @ tr') = submitPayments tr @ submitPayments tr'"
  by (induction tr) (simp_all split: event.splits)

lemma confirmations_append [simp]:
  "confirmations (tr @ tr') = confirmations tr @ confirmations tr'"
  by (induction tr) (simp_all split: event.splits)

text \<open>Steps that keep the three fields of the instance and call no loader.\<close>

lemma fr_getStripeActionsOrThrow:
  "getStripeActionsOrThrow env s = (r, s') \<Longrightarrow>
     stripeClient s' = stripeClient s \<and> stripeCheckout s' = stripeCheckout s \<and>
     selectedMethodId s' = selectedMethodId s \<and> clientLoads (trace s') = clientLoads (trace s)"
  by (auto simp: getStripeActionsOrThrow_def call_val_eq is_clientLoad_def
           elim!: await_cases split: option.splits)

lemma fr_getStripeElement:
  "getStripeElement env opts s = (r, s') \<Longrightarrow>
     stripeClient s' = stripeClient s \<and> stripeCheckout s' = stripeCheckout s \<and>
     selectedMethodId s' = selectedMethodId s \<and> clientLoads (trace s') = clientLoads (trace s)"
  by (auto simp: getStripeElement_def Let_def is_clientLoad_def split: option.splits)

lemma fr_getCurrencySelectorElement:
  "getCurrencySelectorElement' env s = (r, s') \<Longrightarrow>
     stripeClient s' = stripeClient s \<and> stripeCheckout s' = stripeCheckout s \<and>
     selectedMethodId s' = selectedMethodId s \<and> clientLoads (trace s') = clientLoads (trace s)"
  by (auto simp: getCurrencySelectorElement'_def Let_def is_clientLoad_def split: option.splits)

lemma fr_paymentMethod:
  "initializeStripeElement_paymentMethod env g m s = (r, s') \<Longrightarrow>
     stripeClient s' = stripeClient s \<and> stripeCheckout s' = stripeCheckout s \<and>
     selectedMethodId s' = selectedMethodId s \<and> clientLoads (trace s') = clientLoads (trace s)"
  by (auto simp: initializeStripeElement_paymentMethod_def call_unit_eq is_clientLoad_def
           elim!: await_cases split: option.splits sum.splits if_splits)

lemma fr_mount:
  "initializeStripeElement_mount env stripe d ba postal s = (r, s') \<Longrightarrow>
     stripeClient s' = stripeClient s \<and> stripeCheckout s' = stripeCheckout s \<and>
     selectedMethodId s' = selectedMethodId s \<and> clientLoads (trace s') = clientLoads (trace s)"
  by (auto simp: initializeStripeElement_mount_def call_unit_eq is_clientLoad_def Let_def
           dest!: fr_getStripeActionsOrThrow fr_getStripeElement
           elim!: await_cases split: option.splits sum.splits if_splits prod.splits)

lemma fr_adaptive_try:
  "initAdaptivePricing_try env s = (r, s') \<Longrightarrow>
     stripeClient s' = stripeClient s \<and> stripeCheckout s' = stripeCheckout s \<and>
     selectedMethodId s' = selectedMethodId s \<and> clientLoads (trace s') = clientLoads (trace s)"
  by (auto simp: initAdaptivePricing_try_def call_val_eq is_clientLoad_def Let_def
           dest!: fr_getStripeActionsOrThrow fr_getCurrencySelectorElement
           elim!: await_cases split: option.splits sum.splits if_splits prod.splits)

lemma fr_adaptive:
  "initAdaptivePricing env s = (r, s') \<Longrightarrow>
     stripeClient s' = stripeClient s \<and> stripeCheckout s' = stripeCheckout s \<and>
     selectedMethodId s' = selectedMethodId s \<and> clientLoads (trace s') = clientLoads (trace s)"
  using fr_adaptive_try[of env s "fst (initAdaptivePricing_try env s)" "snd (initAdaptivePricing_try env s)"]
  by (auto simp: initAdaptivePricing_def split: option.splits)

text \<open>The step that loads the client: with a cached client it calls no loader.\<close>

lemma cached_checkout:
  "initializeStripeElement_checkout env tok initData s = (r, s') \<Longrightarrow> stripeClient s = Some c \<Longrightarrow>
     stripeClient s' = Some c \<and> (stripeCheckout s \<noteq> None \<longrightarrow> stripeCheckout s' \<noteq> None) \<and>
     selectedMethodId s' = selectedMethodId s \<and> clientLoads (trace s') = clientLoads (trace s)"
  by (auto simp: initializeStripeElement_checkout_def loadStripeJs_def call_val_eq is_clientLoad_def Let_def
           elim!: await_cases split: option.splits sum.splits if_splits prod.splits)

lemma cached_initialize_try:
  "initialize_try env stripe g m s = (r, s') \<Longrightarrow> stripeClient s = Some c \<Longrightarrow>
     stripeClient s' = Some c \<and> clientLoads (trace s') = clientLoads (trace s)"
  by (auto simp: initialize_try_def initializeStripeElement_def
           dest!: fr_paymentMethod fr_mount fr_adaptive
           dest: cached_checkout
           elim!: await_cases split: option.splits sum.splits if_splits prod.splits)

lemma loads_checkout:
  assumes "initializeStripeElement_checkout env tok d s = (r, s')" and "stripeClient s = None"
  shows "stripeCheckout s \<noteq> None \<longrightarrow> stripeCheckout s' \<noteq> None"
    and "selectedMethodId s' = selectedMethodId s"
    and "clientLoads (trace s') =
           clientLoads (trace s) @
             [EvGetStripeClient d (getCartLocale env (trace s))
                (scriptLoader_getStripeClient env (trace s) d (getCartLocale env (trace s)))]"
    and "stripeClient s' =
           (case scriptLoader_getStripeClient env (trace s) d (getCartLocale env (trace s)) of
              Inr c \<Rightarrow> Some c | Inl e \<Rightarrow> None)"
  using assms
  by (auto simp: initializeStripeElement_checkout_def loadStripeJs_def call_val_eq is_clientLoad_def Let_def
           elim!: await_cases split: option.splits sum.splits if_splits prod.splits)

lemma loads_checkout_ex:
  assumes "initializeStripeElement_checkout env tok d s = (r, s')" and "stripeClient s = None"
  shows "\<exists>l res. clientLoads (trace s') = clientLoads (trace s) @ [EvGetStripeClient d l res] \<and>
           stripeClient s' = (case res of Inr c \<Rightarrow> Some c | Inl e \<Rightarrow> None)"
  by (intro exI conjI) (rule loads_checkout(3)[OF assms], rule loads_checkout(4)[OF assms])


lemma loads_initializeStripeElement:
  assumes h: "initializeStripeElement env stripe g m s = (r, s')" and none: "stripeClient s = None"
  shows "(clientLoads (trace s') = clientLoads (trace s) \<and> stripeClient s' = None)
   \<or> (\<exists>d l res. clientLoads (trace s') = clientLoads (trace s) @ [EvGetStripeClient d l res] \<and>
         stripeClient s' = (case res of Inr c \<Rightarrow> Some c | Inl e \<Rightarrow> None))"
proof -
  from h show ?thesis
    unfolding initializeStripeElement_def
  proof (cases rule: await_cases)
    case (fail e)
    then show ?thesis using fr_paymentMethod none by simp
  next
    case (ok a s1)
    obtain tok d where a: "a = (tok, d)" by (cases a)
    from ok(1) have f1: "stripeClient s1 = None" "clientLoads (trace s1) = clientLoads (trace s)"
      using fr_paymentMethod none by auto
    from ok(2)[unfolded a, simplified] show ?thesis
    proof (cases rule: await_cases)
      case (fail e)
      from loads_checkout_ex[OF fail(1) f1(1)] obtain l res where
        "clientLoads (trace s') = clientLoads (trace s1) @ [EvGetStripeClient d l res]"
        "stripeClient s' = (case res of Inr c \<Rightarrow> Some c | Inl e \<Rightarrow> None)" by blast
      with f1(2) show ?thesis by auto
    next
      case (ok b s2)
      obtain d' ba po where b: "b = (d', ba, po)" by (cases b)
      from ok(2)[unfolded b, simplified] have "stripeClient s' = stripeClient s2"
         "clientLoads (trace s') = clientLoads (trace s2)"  using fr_mount by auto
      moreover from loads_checkout_ex[OF ok(1) f1(1)] obtain l res where
        "clientLoads (trace s2) = clientLoads (trace s1) @ [EvGetStripeClient d l res]"
        "stripeClient s2 = (case res of Inr c \<Rightarrow> Some c | Inl e \<Rightarrow> None)" by blast
      ultimately show ?thesis using f1(2) by auto
    qed
  qed
qed


lemma loads_initialize_try:
  assumes h: "initialize_try env stripe g m s = (r, s')" and none: "stripeClient s = None"
  shows "(clientLoads (trace s') = clientLoads (trace s) \<and> stripeClient s' = None)
   \<or> (\<exists>d l res. clientLoads (trace s') = clientLoads (trace s) @ [EvGetStripeClient d l res] \<and>
         stripeClient s' = (case res of Inr c \<Rightarrow> Some c | Inl e \<Rightarrow> None))"
proof -
  from h show ?thesis
    unfolding initialize_try_def
  proof (cases rule: await_cases)
    case (fail e)
    then show ?thesis using loads_initializeStripeElement none by simp
  next
    case (ok a s1)
    with loads_initializeStripeElement[OF ok(1) none] fr_adaptive[OF ok(2)] show ?thesis by auto
  qed
qed

lemma initialize_cases:
  assumes "initialize env options s = (r, s')"
  obtains (invalid) "s' = s" "r = Inl NotInitializedError"
        | (ran) stripe g r1 s1 where "stripeocs options = Some stripe" "init_gatewayId options = Some g"
            "initialize_try env stripe g (init_methodId options) s = (r1, s1)" "containerId stripe \<noteq> []"
            "clientLoads (trace s') = clientLoads (trace s1)" "stripeClient s' = stripeClient s1"
            "stripeCheckout s' = stripeCheckout s1" "selectedMethodId s' = selectedMethodId s1"
  using assms
  by (cases "init_gatewayId options")
     (auto simp: initialize_def is_clientLoad_def split: option.splits if_splits prod.splits sum.splits)

lemma initialize_loads:
  assumes h: "initialize env options s = (r, s')"
  shows "(clientLoads (trace s') = clientLoads (trace s) \<and> stripeClient s' = stripeClient s)
   \<or> (stripeClient s = None \<and>
       (\<exists>d l res. clientLoads (trace s') = clientLoads (trace s) @ [EvGetStripeClient d l res] \<and>
         stripeClient s' = (case res of Inr c \<Rightarrow> Some c | Inl e \<Rightarrow> None)))"
proof -
  from h show ?thesis
  proof (cases rule: initialize_cases)
    case invalid
    then show ?thesis by simp
  next
    case (ran stripe g r1 s1)
    have s1: "clientLoads (trace s') = clientLoads (trace s1)" "stripeClient s' = stripeClient s1"
      using ran(5,6) by auto
    show ?thesis
    proof (cases "stripeClient s")
      case None
      from loads_initialize_try[OF ran(3) None] s1 None show ?thesis by auto
    next
      case (Some c)
      from cached_initialize_try[OF ran(3) Some] s1 Some show ?thesis by auto
    qed
  qed
qed

lemma initialize_all_cached:
  "stripeClient s = Some c \<Longrightarrow>
     stripeClient (initialize_all env calls s) = Some c \<and>
     clientLoads (trace (initialize_all env calls s)) = clientLoads (trace s)"
proof (induction calls arbitrary: s)
  case Nil
  then show ?case by simp
next
  case (Cons options calls)
  obtain r s' where i: "initialize env options s = (r, s')" by (cases "initialize env options s")
  from initialize_loads[OF i] Cons.prems
  have "stripeClient s' = Some c" "clientLoads (trace s') = clientLoads (trace s)" by auto
  with Cons.IH[of s'] i show ?case by simp
qed

lemma initialize_all_resolved:
  "stripeClient s = None \<and> resolvedClients (trace s) = [] \<Longrightarrow>
     length (resolvedClients (trace (initialize_all env calls s))) \<le> 1"
proof (induction calls arbitrary: s)
  case Nil
  then show ?case by simp
next
  case (Cons options calls)
  obtain r s' where i: "initialize env options s = (r, s')" by (cases "initialize env options s")
  from initialize_loads[OF i] Cons.prems
  consider (same) "clientLoads (trace s') = clientLoads (trace s)" "stripeClient s' = None"
    | (load) d l res where "clientLoads (trace s') = clientLoads (trace s) @ [EvGetStripeClient d l res]"
        "stripeClient s' = (case res of Inr c \<Rightarrow> Some c | Inl e \<Rightarrow> None)"
    by auto
  then show ?case
  proof cases
    case same
    then have "resolvedClients (trace s') = []"
      using Cons.prems resolvedClients_clientLoads[of "trace s'"] resolvedClients_clientLoads[of "trace s"]
      by simp
    with same Cons.IH[of s'] i show ?thesis by simp
  next
    case (load d l res)
    have rc: "resolvedClients (trace s') = (case res of Inr c \<Rightarrow> [c] | Inl e \<Rightarrow> [])"
      using load(1) Cons.prems resolvedClients_clientLoads[of "trace s'"] resolvedClients_clientLoads[of "trace s"]
      by (simp split: sum.splits)
    show ?thesis
    proof (cases res)
      case (Inl e)
      with load rc have "stripeClient s' = None" "resolvedClients (trace s') = []" by simp_all
      with Cons.IH[of s'] i show ?thesis by simp
    next
      case (Inr c)
      with load rc have c: "stripeClient s' = Some c" "resolvedClients (trace s') = [c]" by simp_all
      from initialize_all_cached[OF c(1), of env calls]
      have "clientLoads (trace (initialize_all env calls s')) = clientLoads (trace s')" by simp
      then have "resolvedClients (trace (initialize_all env calls s')) = resolvedClients (trace s')"
        using resolvedClients_clientLoads[of "trace (initialize_all env calls s')"]
              resolvedClients_clientLoads[of "trace s'"] by simp
      with c i show ?thesis by simp
    qed
  qed
qed

text \<open>No step of the \<open>try\<close> block of \<open>initialize\<close> calls \<open>onError\<close>, and
  \<open>_initializeStripeElement\<close> returns with a checkout instance.\<close>

lemma onErrorCalls_append [simp]:
  "onErrorCalls (tr @ tr') = onErrorCalls tr @ onErrorCalls tr'"
  by (induction tr) (simp_all split: event.splits)










text \<open>The calls of \<open>submitPayment\<close>, \<open>loadActions\<close> and \<open>confirm\<close> made by the steps of \<open>execute\<close>.\<close>

lemma loadActionsCalls_append [simp]:
  "loadActionsCalls (tr @ tr') = loadActionsCalls tr @ loadActionsCalls tr'"
  by (induction tr) (simp_all split: event.splits)







section \<open>Claims about the payment strategy\<close>







text \<open>
  C7. \<open>deinitialize\<close> always resolves. After it the checkout instance, the client and the
  selected method are cleared. It unmounts and destroys the payment element of the
  checkout instance once, if there is one, and calls nothing else. A second call in a
  row resolves, calls nothing and changes nothing; so does a call on a new instance.
\<close>

theorem deinitialize_idempotent:
  "fst (deinitialize env s) = Inr ()
   \<and> stripeCheckout (snd (deinitialize env s)) = None
   \<and> stripeClient (snd (deinitialize env s)) = None
   \<and> selectedMethodId (snd (deinitialize env s)) = None
   \<and> (\<exists>evs. trace (snd (deinitialize env s)) = trace s @ evs
          \<and> (evs = [] \<or> (\<exists>el. evs = [EvUnmount el, EvDestroy el])))
   \<and> deinitialize env (snd (deinitialize env s)) = (Inr (), snd (deinitialize env s))
   \<and> deinitialize env new_strategy = (Inr (), new_strategy)"
  by (auto simp: deinitialize_def Let_def new_strategy_def emit_def split: option.splits)

theorem deinitialize_idempotent_witness:
  "deinitialize env_mounted initialized
     = (Inr (), new_strategy\<lparr>trace := [EvUnmount 3, EvDestroy 3]\<rparr>)
   \<and> deinitialize env_mounted (new_strategy\<lparr>trace := [EvUnmount 3, EvDestroy 3]\<rparr>)
     = (Inr (), new_strategy\<lparr>trace := [EvUnmount 3, EvDestroy 3]\<rparr>)"
proof -
  have a: "deinitialize env_mounted initialized
     = (Inr (), new_strategy\<lparr>trace := [EvUnmount 3, EvDestroy 3]\<rparr>)"
    by code_simp
  from deinitialize_idempotent[of env_mounted initialized] a
  show ?thesis by simp
qed

text \<open>
  C8 (as amended). The client is loaded at most once and then reused. On a strategy
  instance that holds a client, no sequence of \<open>initialize\<close> calls (without
  \<open>deinitialize\<close>) calls the script loader, and the client stays the cached one. Any
  \<open>initialize\<close> call calls the script loader at most once, and caches the client the
  loader resolves with; so over any sequence of calls on a new instance the loader
  resolves at most once. A call made while no client is cached (the earlier ones failed
  before or while loading) may call the loader again. Likewise the window-level script loader:
  once a client is attached to the window, every call returns it, whatever its
  arguments, and leaves the window as it is; a call that returns a client has attached it.
\<close>

theorem client_loaded_once:
  "(stripeClient s = Some c \<longrightarrow>
      stripeClient (initialize_all env calls s) = Some c
      \<and> clientLoads (trace (initialize_all env calls s)) = clientLoads (trace s))
   \<and> length (clientLoads (trace (snd (initialize env options s)))) \<le> Suc (length (clientLoads (trace s)))
   \<and> (\<forall>d l c'. clientLoads (trace (snd (initialize env options s)))
                  = clientLoads (trace s) @ [EvGetStripeClient d l (Inr c')]
         \<longrightarrow> stripeClient (snd (initialize env options s)) = Some c')
   \<and> length (resolvedClients (trace (initialize_all env calls new_strategy))) \<le> 1
   \<and> (bcStripeClient w = Some k \<longrightarrow> getStripeClient loadScript key account loc w = (Inr k, w))
   \<and> (getStripeClient loadScript key account loc w = (Inr k, w') \<longrightarrow>
        getStripeClient loadScript key' account' loc' w' = (Inr k, w'))"
proof -
  obtain r s' where i: "initialize env options s = (r, s')" by (cases "initialize env options s")
  have 1: "stripeClient s = Some c \<longrightarrow>
      stripeClient (initialize_all env calls s) = Some c
      \<and> clientLoads (trace (initialize_all env calls s)) = clientLoads (trace s)"
    using initialize_all_cached by blast
  have 2: "length (clientLoads (trace (snd (initialize env options s)))) \<le> Suc (length (clientLoads (trace s)))"
    using initialize_loads[OF i] i by auto
  have 3: "\<forall>d l c'. clientLoads (trace (snd (initialize env options s)))
                  = clientLoads (trace s) @ [EvGetStripeClient d l (Inr c')]
         \<longrightarrow> stripeClient (snd (initialize env options s)) = Some c'"
    using initialize_loads[OF i] i by auto
  have 4: "length (resolvedClients (trace (initialize_all env calls new_strategy))) \<le> 1"
    by (rule initialize_all_resolved) (simp add: new_strategy_def)
  have 5: "bcStripeClient w = Some k \<longrightarrow> getStripeClient loadScript key account loc w = (Inr k, w)"
    by (simp add: getStripeClient_def)
  have 6: "getStripeClient loadScript key account loc w = (Inr k, w') \<longrightarrow>
        getStripeClient loadScript key' account' loc' w' = (Inr k, w')"
    by (auto simp: getStripeClient_def Let_def split: option.splits prod.splits sum.splits)
  from 1 2 3 4 5 6 show ?thesis by blast
qed

theorem client_loaded_once_witness:
  "stripeClient initialized = Some 1
   \<and> stripeClient (initialize_all test_env [test_options, test_options] initialized) = Some 1
   \<and> clientLoads (trace (initialize_all test_env [test_options, test_options] initialized)) = []
   \<and> clientLoads (trace (snd (initialize test_env test_options new_strategy)))
       = clientLoads (trace new_strategy)
         @ [EvGetStripeClient (Some \<lparr>stripePublishableKey = ''key'', enableLink = False\<rparr>) ''en'' (Inr 1)]
   \<and> stripeClient (snd (initialize test_env test_options new_strategy)) = Some 1
   \<and> bcStripeClient attached_window = Some (''pk_test_iyRKkVUt0YWpJ3Lq7mfsw3VW008KiFDH4s'', ''acct_1'')
   \<and> fst (getStripeClient test_loadScript ''pk_live_merchant'' ''acct_2'' (Some ''fr'') attached_window)
       = Inr (''pk_test_iyRKkVUt0YWpJ3Lq7mfsw3VW008KiFDH4s'', ''acct_1'')"
proof -
  have a: "stripeClient initialized = Some 1"
    by (simp add: initialized_def)
  have b: "clientLoads (trace initialized) = []"
    by (simp add: initialized_def)
  have l: "clientLoads (trace (snd (initialize test_env test_options new_strategy)))
       = clientLoads (trace new_strategy)
         @ [EvGetStripeClient (Some \<lparr>stripePublishableKey = ''key'', enableLink = False\<rparr>) ''en'' (Inr 1)]"
    by code_simp
  have w: "bcStripeClient attached_window = Some (''pk_test_iyRKkVUt0YWpJ3Lq7mfsw3VW008KiFDH4s'', ''acct_1'')"
    by (simp add: attached_window_def)
  note inst = client_loaded_once
      [where s = initialized and c = 1 and env = test_env and calls = "[test_options, test_options]"
         and w = attached_window and k = "(''pk_test_iyRKkVUt0YWpJ3Lq7mfsw3VW008KiFDH4s'', ''acct_1'')"
         and loadScript = test_loadScript and key = "''pk_live_merchant''"
         and account = "''acct_2''" and loc = "Some ''fr''"]
  note inst2 = client_loaded_once
      [where s = new_strategy and env = test_env and options = test_options]
  from inst a b have 1:
    "stripeClient (initialize_all test_env [test_options, test_options] initialized) = Some 1"
    "clientLoads (trace (initialize_all test_env [test_options, test_options] initialized)) = []"
    by simp_all
  have 2: "stripeClient (snd (initialize test_env test_options new_strategy)) = Some 1"
    by (rule inst2[THEN conjunct2, THEN conjunct2, THEN conjunct1, rule_format, OF l])
  from inst w have 3:
    "fst (getStripeClient test_loadScript ''pk_live_merchant'' ''acct_2'' (Some ''fr'') attached_window)
       = Inr (''pk_test_iyRKkVUt0YWpJ3Lq7mfsw3VW008KiFDH4s'', ''acct_1'')"
    by simp
  from a 1 l 2 w 3 show ?thesis by blast
qed

text \<open>
  C8 as stated fails when the script fails to load during the first \<open>initialize\<close> call:
  the second call on the same instance calls the script loader again. The same holds
  for the window-level loader, which attaches nothing when its first call fails.
\<close>

theorem second_initialize_loads_again_counterexample:
  "length (clientLoads (trace (snd (initialize env_flaky_loader test_options new_strategy)))) = 1
   \<and> stripeClient (snd (initialize env_flaky_loader test_options new_strategy)) = None
   \<and> length (clientLoads (trace (initialize_all env_flaky_loader [test_options, test_options] new_strategy))) = 2
   \<and> stripeClient (initialize_all env_flaky_loader [test_options, test_options] new_strategy) = Some 1"
  by code_simp

end
